theory Spec2Isabelle
  imports Complex_Main "HOL-Library.Sublist"
begin

section \<open>Strings\<close>

text \<open>
  Strings are character lists. \<open>toLowerCase\<close> is modelled on the ASCII letters
  (code units 65..90 are moved to 97..122, every other unit is kept), \<open>includes\<close> is
  the contiguous-substring test of \<open>String.prototype.includes\<close>, and \<open>join\<close> is
  \<open>Array.prototype.join\<close> with an explicit separator.
\<close>

definition toLowerCase_char :: "char \<Rightarrow> char" where
  "toLowerCase_char c =
     (let n = (of_char c :: nat) in if 65 \<le> n \<and> n \<le> 90 then char_of (n + 32) else c)"

definition toLowerCase :: "string \<Rightarrow> string" where
  "toLowerCase s = map toLowerCase_char s"

fun includes_str :: "string \<Rightarrow> string \<Rightarrow> bool" where
  "includes_str [] sub = (sub = [])"
| "includes_str (c # cs) sub = (prefix sub (c # cs) \<or> includes_str cs sub)"

fun join :: "string \<Rightarrow> string list \<Rightarrow> string" where
  "join sep [] = []"
| "join sep [x] = x"
| "join sep (x # y # ys) = x @ sep @ join sep (y # ys)"

section \<open>Command palette (Command, CommandItem, CommandEmpty)\<close>

text \<open>
  The props of \<open>Command\<close> that matter: the optional custom \<open>filter\<close> and
  \<open>shouldFilter\<close> (default true).
\<close>

record command_props =
  filter_prop :: "(string \<Rightarrow> string \<Rightarrow> bool) option"
  shouldFilter :: bool

text \<open>
  A \<open>CommandItem\<close>: its \<open>value\<close> prop, the text of its children
  (\<open>getTextFromChildren(children)\<close>), its keywords and the disabled flag.
\<close>

record command_item =
  item_value :: "string option"
  children_text :: string
  item_keywords :: "string list"
  disabled :: bool

text \<open>
  The state of one \<open>Command\<close>: the two \<open>useState\<close> cells, the \<open>items\<close> ref
  (a JavaScript array, possibly with holes: \<open>None\<close>), and the calls made to the items'
  \<open>onSelect\<close> callbacks, latest last.
\<close>

record command_state =
  search :: string
  selectedIndex :: int
  items :: "command_item option list"
  onSelect_calls :: "string list"

definition defaultFilter :: "bool \<Rightarrow> string \<Rightarrow> string \<Rightarrow> bool" where
  "defaultFilter should_filter v srch =
     (if \<not> should_filter then True
      else if length srch = 0 then True
      else includes_str (toLowerCase v) (toLowerCase srch))"

text \<open>\<open>filter: filter || defaultFilter\<close>\<close>

definition active_filter :: "command_props \<Rightarrow> string \<Rightarrow> string \<Rightarrow> bool" where
  "active_filter p =
     (case filter_prop p of Some f \<Rightarrow> f | None \<Rightarrow> defaultFilter (shouldFilter p))"

text \<open>\<open>value || getTextFromChildren(children)\<close>: an empty \<open>value\<close> is falsy.\<close>

definition searchableText :: "command_item \<Rightarrow> string" where
  "searchableText it =
     (case item_value it of
        Some v \<Rightarrow> if v = [] then children_text it else v
      | None \<Rightarrow> children_text it)"

definition allSearchableText :: "command_item \<Rightarrow> string" where
  "allSearchableText it = join '' '' (searchableText it # item_keywords it)"

definition isVisible :: "command_props \<Rightarrow> string \<Rightarrow> command_item \<Rightarrow> bool" where
  "isVisible p srch it =
     (if length srch = 0 then True else active_filter p (allSearchableText it) srch)"

text \<open>The rendered element carries \<open>hidden={!isVisible}\<close>.\<close>

definition hidden :: "command_props \<Rightarrow> string \<Rightarrow> command_item \<Rightarrow> bool" where
  "hidden p srch it = (\<not> isVisible p srch it)"

text \<open>The elements of a JavaScript array that are present (\<open>filter\<close> skips holes).\<close>

fun registered :: "'a option list \<Rightarrow> 'a list" where
  "registered [] = []"
| "registered (None # xs) = registered xs"
| "registered (Some x # xs) = x # registered xs"

text \<open>\<open>items.current.filter((item) => item && !item.hidden)\<close>\<close>

definition visibleItems :: "command_props \<Rightarrow> command_state \<Rightarrow> command_item list" where
  "visibleItems p s = filter (\<lambda>it. \<not> hidden p (search s) it) (registered (items s))"

text \<open>
  \<open>items.current[index] = element\<close>: a write past the end extends the array, leaving
  holes.
\<close>

definition array_set :: "'a option list \<Rightarrow> nat \<Rightarrow> 'a \<Rightarrow> 'a option list" where
  "array_set xs i v =
     (if i < length xs then xs[i := Some v]
      else xs @ replicate (i - length xs) None @ [Some v])"

definition registerItem :: "command_item option \<Rightarrow> nat \<Rightarrow> command_state \<Rightarrow> command_state" where
  "registerItem element index s =
     (case element of
        Some e \<Rightarrow> s\<lparr>items := array_set (items s) index e\<rparr>
      | None \<Rightarrow> s)"

text \<open>
  \<open>setSearch(text)\<close> from the input's \<open>onChange\<close>, followed by the effect that depends on
  \<open>[search]\<close> and calls \<open>setSelectedIndex(0)\<close>. Setting the state to the value it has
  causes no render, so the effect does not run.
\<close>

definition setSearch :: "string \<Rightarrow> command_state \<Rightarrow> command_state" where
  "setSearch q s = (if q = search s then s else s\<lparr>search := q, selectedIndex := 0\<rparr>)"

text \<open>\<open>xs[i]\<close> for a number \<open>i\<close>: \<open>undefined\<close> outside the array.\<close>

definition nth_opt :: "'a list \<Rightarrow> int \<Rightarrow> 'a option" where
  "nth_opt xs i = (if 0 \<le> i \<and> i < int (length xs) then Some (xs ! nat i) else None)"

text \<open>\<open>CommandItem.handleSelect\<close>, the item's click handler.\<close>

definition handleSelect :: "command_item \<Rightarrow> command_state \<Rightarrow> command_state" where
  "handleSelect it s =
     (if disabled it then s
      else s\<lparr>onSelect_calls := onSelect_calls s @ [searchableText it]\<rparr>)"

text \<open>\<open>Command.handleKeyDown\<close>, by \<open>e.key\<close>.\<close>

definition handleKeyDown :: "command_props \<Rightarrow> string \<Rightarrow> command_state \<Rightarrow> command_state" where
  "handleKeyDown p k s =
     (let vis = visibleItems p s; n = int (length vis) in
      if k = ''ArrowDown'' then
        s\<lparr>selectedIndex := (let next = selectedIndex s + 1 in if next \<ge> n then 0 else next)\<rparr>
      else if k = ''ArrowUp'' then
        s\<lparr>selectedIndex := (let next = selectedIndex s - 1 in if next < 0 then n - 1 else next)\<rparr>
      else if k = ''Enter'' then
        (case nth_opt vis (selectedIndex s) of
           Some selectedItem \<Rightarrow> handleSelect selectedItem s
         | None \<Rightarrow> s)
      else if k = ''Home'' then s\<lparr>selectedIndex := 0\<rparr>
      else if k = ''End'' then s\<lparr>selectedIndex := n - 1\<rparr>
      else s)"

text \<open>
  \<open>CommandItem.handleMouseEnter\<close> of the item registered at \<open>index\<close>
  (\<open>indexRef.current\<close>).
\<close>

definition handleMouseEnter :: "nat \<Rightarrow> command_state \<Rightarrow> command_state" where
  "handleMouseEnter index s =
     (case nth_opt (items s) (int index) of
        Some (Some it) \<Rightarrow> if \<not> disabled it then s\<lparr>selectedIndex := int index\<rparr> else s
      | _ \<Rightarrow> s)"

text \<open>
  \<open>isSelected\<close> of the item registered at \<open>index\<close>:
  \<open>selectedIndex === indexRef.current && isVisible\<close>.
\<close>

definition isSelected :: "command_props \<Rightarrow> command_state \<Rightarrow> nat \<Rightarrow> bool" where
  "isSelected p s index =
     (case nth_opt (items s) (int index) of
        Some (Some it) \<Rightarrow> selectedIndex s = int index \<and> isVisible p (search s) it
      | _ \<Rightarrow> False)"

text \<open>
  \<open>CommandEmpty\<close>. The body of \<open>checkEmpty\<close> first: the value it hands to
  \<open>setIsEmpty\<close>, from the \<open>search\<close> of the render that started the timeout and from
  \<open>items.current\<close> as it is when the timeout fires.
\<close>

definition checkEmpty :: "command_props \<Rightarrow> command_state \<Rightarrow> bool" where
  "checkEmpty p s =
     (let vis = (if length (search s) = 0 then registered (items s)
                 else filter (\<lambda>it. \<not> hidden p (search s) it) (registered (items s)))
      in length (search s) > 0 \<and> length vis = 0)"

text \<open>
  The empty-state flag is the state cell \<open>isEmpty\<close>, false at first; the component
  renders nothing while it is false. The effect with the dependencies \<open>[search, items]\<close>
  starts \<open>setTimeout(checkEmpty, 10)\<close>, and its clean-up clears that timeout. \<open>items\<close> is
  a ref object that never changes, so the effect runs after the mount and after every
  change of \<open>search\<close>, and not when an item registers. \<open>checkTimeout\<close> holds the
  milliseconds left of the pending timeout, if there is one.
\<close>

record command_empty =
  isEmpty :: bool
  checkTimeout :: "nat option"

text \<open>\<open>useState(false)\<close> and the first run of the effect.\<close>

definition mount_empty :: command_empty where
  "mount_empty = \<lparr>isEmpty = False, checkTimeout = Some 10\<rparr>"

text \<open>The clean-up of the previous run, then the effect again.\<close>

definition empty_effect :: "command_empty \<Rightarrow> command_empty" where
  "empty_effect e = e\<lparr>checkTimeout := Some 10\<rparr>"

text \<open>
  A palette with its \<open>CommandEmpty\<close>. The input's \<open>onChange\<close> calls \<open>setSearch\<close>; the
  effect of \<open>CommandEmpty\<close> runs again if \<open>search\<close> changed. An item that registers
  leaves \<open>CommandEmpty\<close> as it is. When \<open>t\<close> milliseconds pass, a timeout that is due
  writes the value of \<open>checkEmpty\<close> to \<open>isEmpty\<close>.
\<close>

type_synonym palette = "command_state \<times> command_empty"

definition input_change :: "string \<Rightarrow> palette \<Rightarrow> palette" where
  "input_change q pl =
     (case pl of (s, e) \<Rightarrow> (setSearch q s, if q = search s then e else empty_effect e))"

definition item_registers :: "command_item option \<Rightarrow> nat \<Rightarrow> palette \<Rightarrow> palette" where
  "item_registers element index pl = (case pl of (s, e) \<Rightarrow> (registerItem element index s, e))"

definition elapse :: "command_props \<Rightarrow> nat \<Rightarrow> palette \<Rightarrow> palette" where
  "elapse p t pl =
     (case pl of (s, e) \<Rightarrow>
        (case checkTimeout e of
           None \<Rightarrow> (s, e)
         | Some r \<Rightarrow>
             if r \<le> t then (s, \<lparr>isEmpty = checkEmpty p s, checkTimeout = None\<rparr>)
             else (s, e\<lparr>checkTimeout := Some (r - t)\<rparr>)))"

definition empty_flag :: "palette \<Rightarrow> bool" where
  "empty_flag pl = isEmpty (snd pl)"

text \<open>Two items, the default props and the palette as it is first rendered.\<close>

definition calendar_item :: command_item where
  "calendar_item = \<lparr>item_value = None, children_text = ''Calendar'', item_keywords = [], disabled = False\<rparr>"

definition mail_item :: command_item where
  "mail_item = \<lparr>item_value = None, children_text = ''Mail'', item_keywords = [], disabled = False\<rparr>"

definition default_props :: command_props where
  "default_props = \<lparr>filter_prop = None, shouldFilter = True\<rparr>"

definition initial_command :: "command_item option list \<Rightarrow> command_state" where
  "initial_command xs = \<lparr>search = [], selectedIndex = 0, items = xs, onSelect_calls = []\<rparr>"

section \<open>Overlay positioning (TooltipContent, DropdownMenuContent, HoverCardContent)\<close>

text \<open>
  JavaScript numbers are modelled as exact reals. A measured rectangle
  (\<open>getBoundingClientRect()\<close>) is given by its top-left corner and its size;
  \<open>bottom\<close> and \<open>right\<close> are the derived edges of a \<open>DOMRect\<close>.
\<close>

record rect =
  rect_top :: real
  rect_left :: real
  rect_width :: real
  rect_height :: real

definition rect_bottom :: "rect \<Rightarrow> real" where
  "rect_bottom r = rect_top r + rect_height r"

definition rect_right :: "rect \<Rightarrow> real" where
  "rect_right r = rect_left r + rect_width r"

datatype side = SideTop | SideRight | SideBottom | SideLeft

datatype align = AlignStart | AlignCenter | AlignEnd

record position =
  pos_top :: real
  pos_left :: real

text \<open>The \<open>switch (align)\<close> blocks, shared in shape by the three components.\<close>

definition align_left :: "align \<Rightarrow> rect \<Rightarrow> rect \<Rightarrow> real" where
  "align_left al trigger content =
     (case al of
        AlignStart \<Rightarrow> rect_left trigger
      | AlignCenter \<Rightarrow> rect_left trigger + (rect_width trigger - rect_width content) / 2
      | AlignEnd \<Rightarrow> rect_right trigger - rect_width content)"

definition align_top :: "align \<Rightarrow> rect \<Rightarrow> rect \<Rightarrow> real" where
  "align_top al trigger content =
     (case al of
        AlignStart \<Rightarrow> rect_top trigger
      | AlignCenter \<Rightarrow> rect_top trigger + (rect_height trigger - rect_height content) / 2
      | AlignEnd \<Rightarrow> rect_bottom trigger - rect_height content)"

text \<open>
  The body of the layout effect of \<open>TooltipContent\<close> after its guard: \<open>top\<close> and
  \<open>left\<close> start at 0, the \<open>switch (side)\<close> assigns the primary axis (and, for left and
  right, a centred \<open>top\<close>), then the two alignment blocks assign the cross axis.
\<close>

definition tooltip_position :: "side \<Rightarrow> align \<Rightarrow> real \<Rightarrow> rect \<Rightarrow> rect \<Rightarrow> position" where
  "tooltip_position sd al sideOffset trigger content =
     (let top0 = (0::real); left0 = (0::real);
          (top1, left1) =
            (case sd of
               SideTop \<Rightarrow> (rect_top trigger - rect_height content - sideOffset, left0)
             | SideBottom \<Rightarrow> (rect_bottom trigger + sideOffset, left0)
             | SideLeft \<Rightarrow>
                 (rect_top trigger + (rect_height trigger - rect_height content) / 2,
                  rect_left trigger - rect_width content - sideOffset)
             | SideRight \<Rightarrow>
                 (rect_top trigger + (rect_height trigger - rect_height content) / 2,
                  rect_right trigger + sideOffset));
          left2 = (if sd = SideTop \<or> sd = SideBottom then align_left al trigger content
                   else left1);
          top2 = (if sd = SideLeft \<or> sd = SideRight then align_top al trigger content
                  else top1)
      in \<lparr>pos_top = top2, pos_left = left2\<rparr>)"

text \<open>\<open>DropdownMenuContent\<close>: for left and right the \<open>switch (side)\<close> sets \<open>top = trigger.top\<close>.\<close>

definition dropdown_position :: "side \<Rightarrow> align \<Rightarrow> real \<Rightarrow> rect \<Rightarrow> rect \<Rightarrow> position" where
  "dropdown_position sd al sideOffset trigger content =
     (let top0 = (0::real); left0 = (0::real);
          (top1, left1) =
            (case sd of
               SideTop \<Rightarrow> (rect_top trigger - rect_height content - sideOffset, left0)
             | SideBottom \<Rightarrow> (rect_bottom trigger + sideOffset, left0)
             | SideLeft \<Rightarrow> (rect_top trigger, rect_left trigger - rect_width content - sideOffset)
             | SideRight \<Rightarrow> (rect_top trigger, rect_right trigger + sideOffset));
          left2 = (if sd = SideTop \<or> sd = SideBottom then align_left al trigger content
                   else left1);
          top2 = (if sd = SideLeft \<or> sd = SideRight then align_top al trigger content
                  else top1)
      in \<lparr>pos_top = top2, pos_left = left2\<rparr>)"

text \<open>\<open>HoverCardContent\<close>: the same statements as \<open>TooltipContent\<close>.\<close>

definition hovercard_position :: "side \<Rightarrow> align \<Rightarrow> real \<Rightarrow> rect \<Rightarrow> rect \<Rightarrow> position" where
  "hovercard_position sd al sideOffset trigger content =
     (let top0 = (0::real); left0 = (0::real);
          (top1, left1) =
            (case sd of
               SideTop \<Rightarrow> (rect_top trigger - rect_height content - sideOffset, left0)
             | SideBottom \<Rightarrow> (rect_bottom trigger + sideOffset, left0)
             | SideLeft \<Rightarrow>
                 (rect_top trigger + (rect_height trigger - rect_height content) / 2,
                  rect_left trigger - rect_width content - sideOffset)
             | SideRight \<Rightarrow>
                 (rect_top trigger + (rect_height trigger - rect_height content) / 2,
                  rect_right trigger + sideOffset));
          left2 = (if sd = SideTop \<or> sd = SideBottom then align_left al trigger content
                   else left1);
          top2 = (if sd = SideLeft \<or> sd = SideRight then align_top al trigger content
                  else top1)
      in \<lparr>pos_top = top2, pos_left = left2\<rparr>)"

text \<open>
  The layout effect itself, with its guard
  \<open>if (!open || !triggerRef.current || !contentRef.current) return\<close>. A ref is
  \<open>None\<close> when no element is attached, otherwise it holds the rectangle the element
  measures. The result is \<open>None\<close> when the effect returns early (no \<open>setPosition\<close>),
  otherwise the position handed to \<open>setPosition\<close>.
\<close>

datatype overlay = Tooltip | DropdownMenu | HoverCard

definition resolve_position :: "overlay \<Rightarrow> side \<Rightarrow> align \<Rightarrow> real \<Rightarrow> rect \<Rightarrow> rect \<Rightarrow> position" where
  "resolve_position ov =
     (case ov of
        Tooltip \<Rightarrow> tooltip_position
      | DropdownMenu \<Rightarrow> dropdown_position
      | HoverCard \<Rightarrow> hovercard_position)"

definition layout_effect ::
  "overlay \<Rightarrow> bool \<Rightarrow> rect option \<Rightarrow> rect option \<Rightarrow> side \<Rightarrow> align \<Rightarrow> real \<Rightarrow> position option" where
  "layout_effect ov is_open triggerRef contentRef sd al sideOffset =
     (if \<not> is_open \<or> triggerRef = None \<or> contentRef = None then None
      else Some (resolve_position ov sd al sideOffset (the triggerRef) (the contentRef)))"

definition zero_rect :: rect where
  "zero_rect = \<lparr>rect_top = 0, rect_left = 0, rect_width = 0, rect_height = 0\<rparr>"

section \<open>Scrollbar (ScrollBar)\<close>

text \<open>
  The two derived values of \<open>ScrollBar\<close>, in percent of the track:
  \<open>thumbSize\<close> from \<open>viewportSize\<close> and \<open>contentSize\<close>, \<open>thumbPosition\<close> from those and
  \<open>scrollPosition\<close>. The division is only evaluated where the divisor is positive.
\<close>

definition thumbSize :: "real \<Rightarrow> real \<Rightarrow> real" where
  "thumbSize viewportSize contentSize =
     (if contentSize > 0 then max ((viewportSize / contentSize) * 100) 10 else 0)"

definition thumbPosition :: "real \<Rightarrow> real \<Rightarrow> real \<Rightarrow> real" where
  "thumbPosition scrollPosition viewportSize contentSize =
     (if contentSize > viewportSize
      then (scrollPosition / (contentSize - viewportSize)) * (100 - thumbSize viewportSize contentSize)
      else 0)"

section \<open>Timers\<close>

text \<open>
  \<open>setTimeout\<close> and \<open>clearTimeout\<close> over an explicit table of scheduled callbacks. An
  entry is a handle, the milliseconds left until it fires and the value its callback
  passes on; the table is in creation order. Handles are never reused.
\<close>

type_synonym timers = "(nat \<times> nat \<times> bool) list"

text \<open>
  The delay \<open>setTimeout\<close> works with is a 32-bit signed integer: a delay below 1 or
  above \<open>2^31 - 1\<close> is not honoured, and the callback is due at once.
\<close>

definition timeout_ms :: "int \<Rightarrow> nat" where
  "timeout_ms d = (if 1 \<le> d \<and> d \<le> 2147483647 then nat d else 0)"

definition clearTimeout :: "nat \<Rightarrow> timers \<Rightarrow> timers" where
  "clearTimeout h ts = filter (\<lambda>(i, r, v). i \<noteq> h) ts"

text \<open>
  The callbacks that fire when \<open>t\<close> milliseconds pass, earliest first (creation order
  among equals), and the table that is left.
\<close>

definition due :: "nat \<Rightarrow> timers \<Rightarrow> bool list" where
  "due t ts = map (\<lambda>(i, r, v). v) (sort_key (\<lambda>(i, r, v). r) (filter (\<lambda>(i, r, v). r \<le> t) ts))"

definition later :: "nat \<Rightarrow> timers \<Rightarrow> timers" where
  "later t ts = map (\<lambda>(i, r, v). (i, r - t, v)) (filter (\<lambda>(i, r, v). \<not> r \<le> t) ts)"

section \<open>Tooltip open state (Tooltip, TooltipTrigger)\<close>

record tooltip_props =
  tt_controlledOpen :: "bool option"
  tt_delayDuration :: int

record tooltip_state =
  tt_uncontrolledOpen :: bool
  tt_timeoutRef :: "nat option"
  tt_pending :: timers
  tt_next_handle :: nat
  tt_onOpenChange_calls :: "bool list"

definition tt_open :: "tooltip_props \<Rightarrow> tooltip_state \<Rightarrow> bool" where
  "tt_open p s = (case tt_controlledOpen p of Some b \<Rightarrow> b | None \<Rightarrow> tt_uncontrolledOpen s)"

text \<open>\<open>Tooltip.setOpen\<close>: the local state is written only when uncontrolled.\<close>

definition tt_setOpen :: "tooltip_props \<Rightarrow> bool \<Rightarrow> tooltip_state \<Rightarrow> tooltip_state" where
  "tt_setOpen p v s =
     (let s1 = (if tt_controlledOpen p = None then s\<lparr>tt_uncontrolledOpen := v\<rparr> else s)
      in s1\<lparr>tt_onOpenChange_calls := tt_onOpenChange_calls s1 @ [v]\<rparr>)"

text \<open>
  \<open>TooltipTrigger.handleMouseEnter\<close>: with a positive delay the new timer's handle is
  written over \<open>timeoutRef.current\<close>; a timer the ref held before is not cleared.
\<close>

definition tt_handleMouseEnter :: "tooltip_props \<Rightarrow> tooltip_state \<Rightarrow> tooltip_state" where
  "tt_handleMouseEnter p s =
     (if tt_delayDuration p > 0 then
        (let h = tt_next_handle s in
         s\<lparr>tt_timeoutRef := Some h,
           tt_pending := tt_pending s @ [(h, timeout_ms (tt_delayDuration p), True)],
           tt_next_handle := h + 1\<rparr>)
      else tt_setOpen p True s)"

definition tt_handleMouseLeave :: "tooltip_props \<Rightarrow> tooltip_state \<Rightarrow> tooltip_state" where
  "tt_handleMouseLeave p s =
     (let s1 = (case tt_timeoutRef s of
                  Some h \<Rightarrow> s\<lparr>tt_pending := clearTimeout h (tt_pending s), tt_timeoutRef := None\<rparr>
                | None \<Rightarrow> s)
      in tt_setOpen p False s1)"

definition tt_handleFocus :: "tooltip_props \<Rightarrow> tooltip_state \<Rightarrow> tooltip_state" where
  "tt_handleFocus p s = tt_setOpen p True s"

definition tt_handleBlur :: "tooltip_props \<Rightarrow> tooltip_state \<Rightarrow> tooltip_state" where
  "tt_handleBlur p s = tt_setOpen p False s"

text \<open>\<open>t\<close> milliseconds pass with no event: every due callback runs \<open>setOpen(true)\<close>.\<close>

definition tt_advance :: "tooltip_props \<Rightarrow> nat \<Rightarrow> tooltip_state \<Rightarrow> tooltip_state" where
  "tt_advance p t s =
     fold (\<lambda>v. tt_setOpen p v) (due t (tt_pending s)) (s\<lparr>tt_pending := later t (tt_pending s)\<rparr>)"

section \<open>Hover card open state (HoverCard, HoverCardTrigger, HoverCardContent)\<close>

record hovercard_props =
  hc_controlledOpen :: "bool option"
  openDelay :: int
  closeDelay :: int

record hovercard_state =
  hc_uncontrolledOpen :: bool
  openTimeoutRef :: "nat option"
  closeTimeoutRef :: "nat option"
  hc_pending :: timers
  hc_next_handle :: nat
  hc_onOpenChange_calls :: "bool list"

definition hc_open :: "hovercard_props \<Rightarrow> hovercard_state \<Rightarrow> bool" where
  "hc_open p s = (case hc_controlledOpen p of Some b \<Rightarrow> b | None \<Rightarrow> hc_uncontrolledOpen s)"

text \<open>The body of a scheduled callback of \<open>HoverCard.setOpen\<close>.\<close>

definition hc_fire :: "hovercard_props \<Rightarrow> bool \<Rightarrow> hovercard_state \<Rightarrow> hovercard_state" where
  "hc_fire p v s =
     (let s1 = (if hc_controlledOpen p = None then s\<lparr>hc_uncontrolledOpen := v\<rparr> else s)
      in s1\<lparr>hc_onOpenChange_calls := hc_onOpenChange_calls s1 @ [v]\<rparr>)"

text \<open>
  \<open>HoverCard.setOpen(value)\<close>: both pending timers are cleared, then the open or the
  close is scheduled.
\<close>

definition hc_setOpen :: "hovercard_props \<Rightarrow> bool \<Rightarrow> hovercard_state \<Rightarrow> hovercard_state" where
  "hc_setOpen p v s =
     (let s1 = (case openTimeoutRef s of
                  Some h \<Rightarrow> s\<lparr>hc_pending := clearTimeout h (hc_pending s), openTimeoutRef := None\<rparr>
                | None \<Rightarrow> s);
          s2 = (case closeTimeoutRef s1 of
                  Some h \<Rightarrow> s1\<lparr>hc_pending := clearTimeout h (hc_pending s1), closeTimeoutRef := None\<rparr>
                | None \<Rightarrow> s1);
          h = hc_next_handle s2
      in if v then
           s2\<lparr>openTimeoutRef := Some h,
              hc_pending := hc_pending s2 @ [(h, timeout_ms (openDelay p), True)],
              hc_next_handle := h + 1\<rparr>
         else
           s2\<lparr>closeTimeoutRef := Some h,
              hc_pending := hc_pending s2 @ [(h, timeout_ms (closeDelay p), False)],
              hc_next_handle := h + 1\<rparr>)"

definition cancelClose :: "hovercard_state \<Rightarrow> hovercard_state" where
  "cancelClose s =
     (case closeTimeoutRef s of
        Some h \<Rightarrow> s\<lparr>hc_pending := clearTimeout h (hc_pending s), closeTimeoutRef := None\<rparr>
      | None \<Rightarrow> s)"

definition hc_handleMouseEnter :: "hovercard_props \<Rightarrow> hovercard_state \<Rightarrow> hovercard_state" where
  "hc_handleMouseEnter p s = hc_setOpen p True s"

definition hc_handleMouseLeave :: "hovercard_props \<Rightarrow> hovercard_state \<Rightarrow> hovercard_state" where
  "hc_handleMouseLeave p s = hc_setOpen p False s"

definition hc_advance :: "hovercard_props \<Rightarrow> nat \<Rightarrow> hovercard_state \<Rightarrow> hovercard_state" where
  "hc_advance p t s =
     fold (\<lambda>v. hc_fire p v) (due t (hc_pending s)) (s\<lparr>hc_pending := later t (hc_pending s)\<rparr>)"

text \<open>
  Every scheduled callback is held by one of the two refs. This holds when nothing is
  scheduled and is kept by \<open>setOpen\<close>, \<open>cancelClose\<close> and the passing of time.
\<close>

definition hc_tracked :: "hovercard_state \<Rightarrow> bool" where
  "hc_tracked s =
     list_all (\<lambda>(i, r, v). openTimeoutRef s = Some i \<or> closeTimeoutRef s = Some i) (hc_pending s)"

section \<open>Dropdown menu (DropdownMenu, DropdownMenuTrigger, DropdownMenuContent)\<close>

text \<open>
  What the callbacks of a menu do that can be observed from outside, in order:
  \<open>onOpenChange\<close>, a caller's \<open>onClick\<close> or \<open>onKeyDown\<close>, \<open>onCheckedChange\<close>,
  \<open>onValueChange\<close>.
\<close>

datatype dd_action =
    OnOpenChange bool
  | OnClick
  | OnKeyDown
  | OnCheckedChange bool
  | OnValueChange string

datatype focus_target = FocusTrigger | FocusElsewhere

text \<open>Where the target of a document-level event lies.\<close>

datatype event_target = InsideContent | InsideTrigger | OutsideBoth

record dropdown_props =
  dd_controlledOpen :: "bool option"

text \<open>
  The state of one menu: the \<open>useState\<close> cell, the \<open>mounted\<close> flag of the content,
  whether \<open>triggerRef.current\<close> holds an element, whether the document listeners of the
  dismissal effect are attached, the element that has keyboard focus, and the trace of
  callbacks.
\<close>

record dropdown_state =
  dd_uncontrolledOpen :: bool
  dd_mounted :: bool
  dd_trigger_attached :: bool
  dd_listening :: bool
  dd_focus :: focus_target
  dd_trace :: "dd_action list"

definition dd_open :: "dropdown_props \<Rightarrow> dropdown_state \<Rightarrow> bool" where
  "dd_open p s = (case dd_controlledOpen p of Some b \<Rightarrow> b | None \<Rightarrow> dd_uncontrolledOpen s)"

definition dd_setOpen :: "dropdown_props \<Rightarrow> bool \<Rightarrow> dropdown_state \<Rightarrow> dropdown_state" where
  "dd_setOpen p v s =
     (let s1 = (if dd_controlledOpen p = None then s\<lparr>dd_uncontrolledOpen := v\<rparr> else s)
      in s1\<lparr>dd_trace := dd_trace s1 @ [OnOpenChange v]\<rparr>)"

text \<open>
  The dismissal effect of \<open>DropdownMenuContent\<close>, run after a render: the clean-up of
  the previous run removes the listeners, and they are attached again only if \<open>open\<close>.
\<close>

definition dismissal_effect :: "dropdown_props \<Rightarrow> dropdown_state \<Rightarrow> dropdown_state" where
  "dismissal_effect p s = s\<lparr>dd_listening := dd_open p s\<rparr>"

text \<open>Unmounting runs the clean-up only.\<close>

definition dd_unmount :: "dropdown_state \<Rightarrow> dropdown_state" where
  "dd_unmount s = s\<lparr>dd_listening := False\<rparr>"

text \<open>The content element is rendered, so \<open>contentRef.current\<close> is set, when open and mounted.\<close>

definition content_attached :: "dropdown_props \<Rightarrow> dropdown_state \<Rightarrow> bool" where
  "content_attached p s = (dd_open p s \<and> dd_mounted s)"

definition handleClickOutside :: "dropdown_props \<Rightarrow> event_target \<Rightarrow> dropdown_state \<Rightarrow> dropdown_state" where
  "handleClickOutside p target s =
     (if content_attached p s \<and> target \<noteq> InsideContent \<and>
         dd_trigger_attached s \<and> target \<noteq> InsideTrigger
      then dd_setOpen p False s else s)"

definition handleEscape :: "dropdown_props \<Rightarrow> string \<Rightarrow> dropdown_state \<Rightarrow> dropdown_state" where
  "handleEscape p k s =
     (if k = ''Escape'' then
        (let s1 = dd_setOpen p False s
         in if dd_trigger_attached s1 then s1\<lparr>dd_focus := FocusTrigger\<rparr> else s1)
      else s)"

text \<open>
  Events as the document and the trigger deliver them: a document listener runs only
  while attached, and the effect runs after the render that the handler caused.
\<close>

definition document_mousedown :: "dropdown_props \<Rightarrow> event_target \<Rightarrow> dropdown_state \<Rightarrow> dropdown_state" where
  "document_mousedown p target s =
     (if dd_listening s then dismissal_effect p (handleClickOutside p target s) else s)"

definition document_keydown :: "dropdown_props \<Rightarrow> string \<Rightarrow> dropdown_state \<Rightarrow> dropdown_state" where
  "document_keydown p k s =
     (if dd_listening s then dismissal_effect p (handleEscape p k s) else s)"

text \<open>
  The props of \<open>DropdownMenuTrigger\<close> that reach its click: whether the caller passed
  an \<open>onClick\<close>, and \<open>asChild\<close> (standing for
  \<open>asChild && React.isValidElement(children)\<close>).
\<close>

record trigger_props =
  tr_has_onClick :: bool
  tr_asChild :: bool

text \<open>\<open>DropdownMenuTrigger.handleClick\<close>: \<open>setOpen(!open)\<close>, then the caller's \<open>onClick\<close> if any.\<close>

definition trigger_handleClick ::
  "dropdown_props \<Rightarrow> trigger_props \<Rightarrow> dropdown_state \<Rightarrow> dropdown_state" where
  "trigger_handleClick p tp s =
     (let s1 = dd_setOpen p (\<not> dd_open p s) s
      in if tr_has_onClick tp then s1\<lparr>dd_trace := dd_trace s1 @ [OnClick]\<rparr> else s1)"

text \<open>
  A click on the rendered trigger, followed by the effect. With \<open>asChild\<close> the child is
  cloned with \<open>onClick: handleClick\<close>. Otherwise the button is written
  \<open>onClick={handleClick} onKeyDown={handleKeyDown} {...props}\<close>, and a caller's
  \<open>onClick\<close>, spread last, replaces \<open>handleClick\<close>: the click then runs the caller's handler
  only and does not toggle the menu.
\<close>

definition trigger_click ::
  "dropdown_props \<Rightarrow> trigger_props \<Rightarrow> dropdown_state \<Rightarrow> dropdown_state" where
  "trigger_click p tp s =
     dismissal_effect p
       (if tr_asChild tp then trigger_handleClick p tp s
        else if tr_has_onClick tp then s\<lparr>dd_trace := dd_trace s @ [OnClick]\<rparr>
        else trigger_handleClick p tp s)"

section \<open>Events that reach a tooltip and a hover card\<close>

text \<open>
  The handlers the elements of a tooltip and of a hover card carry. \<open>TooltipTrigger\<close>
  has \<open>onMouseEnter\<close>, \<open>onMouseLeave\<close>, \<open>onFocus\<close> and \<open>onBlur\<close>; \<open>HoverCardTrigger\<close> has
  \<open>onMouseEnter\<close> and \<open>onMouseLeave\<close>; \<open>HoverCardContent\<close> has \<open>onMouseEnter={cancelClose}\<close>
  and \<open>onMouseLeave={() => setOpen(false)}\<close>. Neither component adds a listener to the
  document, so a mouse-down or a key press on the document reaches no handler of theirs.
\<close>

datatype overlay_event =
    TriggerMouseEnter
  | TriggerMouseLeave
  | TriggerFocus
  | TriggerBlur
  | ContentMouseEnter
  | ContentMouseLeave
  | DocumentMouseDown event_target
  | DocumentKeyDown string

definition tt_event :: "tooltip_props \<Rightarrow> overlay_event \<Rightarrow> tooltip_state \<Rightarrow> tooltip_state" where
  "tt_event p ev s =
     (case ev of
        TriggerMouseEnter \<Rightarrow> tt_handleMouseEnter p s
      | TriggerMouseLeave \<Rightarrow> tt_handleMouseLeave p s
      | TriggerFocus \<Rightarrow> tt_handleFocus p s
      | TriggerBlur \<Rightarrow> tt_handleBlur p s
      | _ \<Rightarrow> s)"

definition hc_event :: "hovercard_props \<Rightarrow> overlay_event \<Rightarrow> hovercard_state \<Rightarrow> hovercard_state" where
  "hc_event p ev s =
     (case ev of
        TriggerMouseEnter \<Rightarrow> hc_handleMouseEnter p s
      | TriggerMouseLeave \<Rightarrow> hc_handleMouseLeave p s
      | ContentMouseEnter \<Rightarrow> cancelClose s
      | ContentMouseLeave \<Rightarrow> hc_setOpen p False s
      | _ \<Rightarrow> s)"

section \<open>Dropdown menu items\<close>

text \<open>
  An event object, by the two fields the handlers read, and a caller-supplied handler,
  by the one thing it can do to the event that the item reads back: call
  \<open>preventDefault()\<close> or not.
\<close>

record dom_event =
  ev_key :: string
  defaultPrevented :: bool

datatype handler = Plain | CallsPreventDefault

definition preventDefault :: "dom_event \<Rightarrow> dom_event" where
  "preventDefault e = e\<lparr>defaultPrevented := True\<rparr>"

definition run_handler :: "handler \<Rightarrow> dom_event \<Rightarrow> dom_event" where
  "run_handler h e = (case h of Plain \<Rightarrow> e | CallsPreventDefault \<Rightarrow> preventDefault e)"

text \<open>
  The props of an item that reach its handlers. \<open>asChild\<close> stands for
  \<open>asChild && React.isValidElement(children)\<close>.
\<close>

record item_props =
  onClick :: "handler option"
  onKeyDown :: "handler option"
  asChild :: bool

text \<open>\<open>DropdownMenuItem.handleClick\<close>\<close>

definition item_handleClick ::
  "dropdown_props \<Rightarrow> item_props \<Rightarrow> dom_event \<Rightarrow> dropdown_state \<Rightarrow> dom_event \<times> dropdown_state" where
  "item_handleClick p ip e s =
     (let (e1, s1) = (case onClick ip of
                        Some h \<Rightarrow> (run_handler h e, s\<lparr>dd_trace := dd_trace s @ [OnClick]\<rparr>)
                      | None \<Rightarrow> (e, s))
      in if \<not> defaultPrevented e1 then (e1, dd_setOpen p False s1) else (e1, s1))"

text \<open>\<open>DropdownMenuItem.handleKeyDown\<close>\<close>

definition item_handleKeyDown ::
  "dropdown_props \<Rightarrow> item_props \<Rightarrow> dom_event \<Rightarrow> dropdown_state \<Rightarrow> dom_event \<times> dropdown_state" where
  "item_handleKeyDown p ip e s =
     (let (e1, s1) = (if ev_key e = ''Enter'' \<or> ev_key e = '' ''
                      then item_handleClick p ip (preventDefault e) s
                      else (e, s))
      in case onKeyDown ip of
           Some h \<Rightarrow> (run_handler h e1, s1\<lparr>dd_trace := dd_trace s1 @ [OnKeyDown]\<rparr>)
         | None \<Rightarrow> (e1, s1))"

text \<open>
  The handlers the rendered element carries. With \<open>asChild\<close> the child is cloned with
  \<open>onClick: handleClick\<close> and \<open>onKeyDown: handleKeyDown\<close>. Otherwise the button is written
  \<open>onClick={handleClick} onKeyDown={handleKeyDown} {...props}\<close>, and the spread, coming
  last, replaces either handler by the caller's when the caller passed one.
\<close>

definition item_click ::
  "dropdown_props \<Rightarrow> item_props \<Rightarrow> dom_event \<Rightarrow> dropdown_state \<Rightarrow> dom_event \<times> dropdown_state" where
  "item_click p ip e s =
     (if asChild ip then item_handleClick p ip e s
      else case onClick ip of
             Some h \<Rightarrow> (run_handler h e, s\<lparr>dd_trace := dd_trace s @ [OnClick]\<rparr>)
           | None \<Rightarrow> item_handleClick p ip e s)"

definition item_keydown ::
  "dropdown_props \<Rightarrow> item_props \<Rightarrow> dom_event \<Rightarrow> dropdown_state \<Rightarrow> dom_event \<times> dropdown_state" where
  "item_keydown p ip e s =
     (if asChild ip then item_handleKeyDown p ip e s
      else case onKeyDown ip of
             Some h \<Rightarrow> (run_handler h e, s\<lparr>dd_trace := dd_trace s @ [OnKeyDown]\<rparr>)
           | None \<Rightarrow> item_handleKeyDown p ip e s)"

text \<open>
  \<open>DropdownMenuCheckboxItem\<close> and \<open>DropdownMenuRadioItem\<close>: their \<open>handleClick\<close> and the
  handler the rendered button carries (\<open>onClick={handleClick} {...props}\<close>).
\<close>

definition checkbox_handleClick ::
  "bool \<Rightarrow> bool \<Rightarrow> handler option \<Rightarrow> dom_event \<Rightarrow> dropdown_state \<Rightarrow> dom_event \<times> dropdown_state" where
  "checkbox_handleClick checked has_onCheckedChange on_click e s =
     (let e1 = preventDefault e;
          s1 = (if has_onCheckedChange
                then s\<lparr>dd_trace := dd_trace s @ [OnCheckedChange (\<not> checked)]\<rparr> else s)
      in case on_click of
           Some h \<Rightarrow> (run_handler h e1, s1\<lparr>dd_trace := dd_trace s1 @ [OnClick]\<rparr>)
         | None \<Rightarrow> (e1, s1))"

definition checkbox_click ::
  "bool \<Rightarrow> bool \<Rightarrow> handler option \<Rightarrow> dom_event \<Rightarrow> dropdown_state \<Rightarrow> dom_event \<times> dropdown_state" where
  "checkbox_click checked has_onCheckedChange on_click e s =
     (case on_click of
        Some h \<Rightarrow> (run_handler h e, s\<lparr>dd_trace := dd_trace s @ [OnClick]\<rparr>)
      | None \<Rightarrow> checkbox_handleClick checked has_onCheckedChange on_click e s)"

definition radio_handleClick ::
  "string \<Rightarrow> bool \<Rightarrow> handler option \<Rightarrow> dom_event \<Rightarrow> dropdown_state \<Rightarrow> dom_event \<times> dropdown_state" where
  "radio_handleClick v has_onValueChange on_click e s =
     (let e1 = preventDefault e;
          s1 = (if has_onValueChange
                then s\<lparr>dd_trace := dd_trace s @ [OnValueChange v]\<rparr> else s)
      in case on_click of
           Some h \<Rightarrow> (run_handler h e1, s1\<lparr>dd_trace := dd_trace s1 @ [OnClick]\<rparr>)
         | None \<Rightarrow> (e1, s1))"

definition radio_click ::
  "string \<Rightarrow> bool \<Rightarrow> handler option \<Rightarrow> dom_event \<Rightarrow> dropdown_state \<Rightarrow> dom_event \<times> dropdown_state" where
  "radio_click v has_onValueChange on_click e s =
     (case on_click of
        Some h \<Rightarrow> (run_handler h e, s\<lparr>dd_trace := dd_trace s @ [OnClick]\<rparr>)
      | None \<Rightarrow> radio_handleClick v has_onValueChange on_click e s)"

section \<open>Scenarios and examples\<close>

text \<open>An open, mounted, uncontrolled menu with its listeners attached.\<close>

definition open_menu :: dropdown_state where
  "open_menu = \<lparr>dd_uncontrolledOpen = True, dd_mounted = True, dd_trigger_attached = True,
                dd_listening = True, dd_focus = FocusElsewhere, dd_trace = []\<rparr>"

definition uncontrolled :: dropdown_props where
  "uncontrolled = \<lparr>dd_controlledOpen = None\<rparr>"

text \<open>A menu whose caller passes \<open>open={true}\<close>, and an open tooltip and hover card.\<close>

definition held_open :: dropdown_props where
  "held_open = \<lparr>dd_controlledOpen = Some True\<rparr>"

definition open_tooltip :: tooltip_state where
  "open_tooltip = \<lparr>tt_uncontrolledOpen = True, tt_timeoutRef = None, tt_pending = [],
     tt_next_handle = 1, tt_onOpenChange_calls = []\<rparr>"

definition open_hovercard :: hovercard_state where
  "open_hovercard = \<lparr>hc_uncontrolledOpen = True, openTimeoutRef = None, closeTimeoutRef = None,
     hc_pending = [], hc_next_handle = 1, hc_onOpenChange_calls = []\<rparr>"

text \<open>Two measured rectangles.\<close>

definition example_trigger :: rect where
  "example_trigger = \<lparr>rect_top = 100, rect_left = 50, rect_width = 80, rect_height = 20\<rparr>"

definition example_content :: rect where
  "example_content = \<lparr>rect_top = 0, rect_left = 0, rect_width = 40, rect_height = 10\<rparr>"

text \<open>
  A custom predicate (exact match), a disabled item, a third item, a palette in which
  ``Calendar'', ``Mail'' and ``Map'' have registered, in that order, one with the first
  two only, and one with the first two of which the first is disabled.
\<close>

definition exact_match :: "string \<Rightarrow> string \<Rightarrow> bool" where
  "exact_match v srch = (v = srch)"

definition exact_props :: command_props where
  "exact_props = \<lparr>filter_prop = Some exact_match, shouldFilter = True\<rparr>"


definition jazz_item :: command_item where
  "jazz_item = \<lparr>item_value = None, children_text = ''Jazz'', item_keywords = [], disabled = False\<rparr>"

definition map_item :: command_item where
  "map_item = \<lparr>item_value = None, children_text = ''Map'', item_keywords = [], disabled = False\<rparr>"

definition three_items :: command_state where
  "three_items =
     registerItem (Some map_item) 2
       (registerItem (Some mail_item) 1
          (registerItem (Some calendar_item) 0 (initial_command [])))"

definition calendar_mail :: command_state where
  "calendar_mail =
     registerItem (Some mail_item) 1 (registerItem (Some calendar_item) 0 (initial_command []))"


text \<open>
  The pointer enters the trigger, \<open>t\<close> milliseconds pass, the pointer leaves the
  trigger.
\<close>

definition tt_enter_leave :: "tooltip_props \<Rightarrow> nat \<Rightarrow> tooltip_state \<Rightarrow> tooltip_state" where
  "tt_enter_leave p t s = tt_handleMouseLeave p (tt_advance p t (tt_handleMouseEnter p s))"

definition hc_enter_leave :: "hovercard_props \<Rightarrow> nat \<Rightarrow> hovercard_state \<Rightarrow> hovercard_state" where
  "hc_enter_leave p t s = hc_handleMouseLeave p (hc_advance p t (hc_handleMouseEnter p s))"

text \<open>
  A closed tooltip and a closed hover card with nothing scheduled, a tooltip with a
  delay of 700 ms, and the hover card's default delays.
\<close>

definition closed_tooltip :: tooltip_state where
  "closed_tooltip = \<lparr>tt_uncontrolledOpen = False, tt_timeoutRef = None, tt_pending = [],
     tt_next_handle = 1, tt_onOpenChange_calls = []\<rparr>"

definition closed_hovercard :: hovercard_state where
  "closed_hovercard = \<lparr>hc_uncontrolledOpen = False, openTimeoutRef = None, closeTimeoutRef = None,
     hc_pending = [], hc_next_handle = 1, hc_onOpenChange_calls = []\<rparr>"

definition tooltip_700 :: tooltip_props where
  "tooltip_700 = \<lparr>tt_controlledOpen = None, tt_delayDuration = 700\<rparr>"

definition hovercard_defaults :: hovercard_props where
  "hovercard_defaults = \<lparr>hc_controlledOpen = None, openDelay = 700, closeDelay = 300\<rparr>"

text \<open>
  An item without handlers, and the events of a key press on Enter, a key press on Space
  and a mouse click, none with its default prevented yet.
\<close>

definition plain_item :: item_props where
  "plain_item = \<lparr>onClick = None, onKeyDown = None, asChild = False\<rparr>"

definition enter_key :: dom_event where
  "enter_key = \<lparr>ev_key = ''Enter'', defaultPrevented = False\<rparr>"

definition space_key :: dom_event where
  "space_key = \<lparr>ev_key = '' '', defaultPrevented = False\<rparr>"

definition mouse_click :: dom_event where
  "mouse_click = \<lparr>ev_key = [], defaultPrevented = False\<rparr>"

section \<open>Empty-state flag\<close>


lemma checkEmpty_eq:
  "checkEmpty p s = (search s \<noteq> [] \<and> length (visibleItems p s) = 0)"
  by (simp add: checkEmpty_def visibleItems_def)

lemma calendar_mail_registry:
  "calendar_mail = initial_command [Some calendar_item, Some mail_item]"
  by (simp add: calendar_mail_def registerItem_def array_set_def initial_command_def)

lemma toLowerCase_zz:
  "toLowerCase ''zz'' = ''zz''" "toLowerCase ''Jazz'' = ''jazz''"
  "toLowerCase ''Mail'' = ''mail''" "toLowerCase ''Calendar'' = ''calendar''"
  by code_simp+

lemma isVisible_zz:
  "\<not> isVisible default_props ''zz'' calendar_item" "\<not> isVisible default_props ''zz'' mail_item"
  "isVisible default_props ''zz'' jazz_item"
  by (simp_all add: isVisible_def active_filter_def default_props_def defaultFilter_def
      allSearchableText_def searchableText_def mail_item_def calendar_item_def jazz_item_def
      toLowerCase_zz)

lemma typed_zz:
  "input_change ''zz'' (calendar_mail, mount_empty)
     = (\<lparr>search = ''zz'', selectedIndex = 0, items = [Some calendar_item, Some mail_item],
         onSelect_calls = []\<rparr>, \<lparr>isEmpty = False, checkTimeout = Some 10\<rparr>)"
  by (simp add: input_change_def calendar_mail_registry initial_command_def setSearch_def
      empty_effect_def mount_empty_def)

lemma visibleItems_zz:
  "visibleItems default_props
     \<lparr>search = ''zz'', selectedIndex = i, items = [Some calendar_item, Some mail_item],
      onSelect_calls = cs\<rparr> = []"
  by (simp add: visibleItems_def hidden_def isVisible_zz)

lemma checked_zz:
  "elapse default_props 10 (input_change ''zz'' (calendar_mail, mount_empty))
     = (\<lparr>search = ''zz'', selectedIndex = 0, items = [Some calendar_item, Some mail_item],
         onSelect_calls = []\<rparr>, \<lparr>isEmpty = True, checkTimeout = None\<rparr>)"
  unfolding typed_zz
  by (simp add: elapse_def checkEmpty_eq visibleItems_zz)

text \<open>
  With ``Calendar'' and ``Mail'' registered: 9 ms after ``zz'' is typed the query is
  non-empty and no item is visible, and the flag is still false; once the check has set
  it to true, 9 ms after the query is cleared the query is empty and the flag is still
  true.
\<close>

theorem C8_flag_lags_behind_query:
  "search (fst (elapse default_props 9 (input_change ''zz'' (calendar_mail, mount_empty)))) = ''zz'' \<and>
   length (visibleItems default_props
     (fst (elapse default_props 9 (input_change ''zz'' (calendar_mail, mount_empty))))) = 0 \<and>
   \<not> empty_flag (elapse default_props 9 (input_change ''zz'' (calendar_mail, mount_empty))) \<and>
   search (fst (elapse default_props 9 (input_change []
     (elapse default_props 10 (input_change ''zz'' (calendar_mail, mount_empty)))))) = [] \<and>
   empty_flag (elapse default_props 9 (input_change []
     (elapse default_props 10 (input_change ''zz'' (calendar_mail, mount_empty)))))"
  unfolding typed_zz
  by (simp add: elapse_def input_change_def setSearch_def empty_effect_def empty_flag_def
      visibleItems_zz checkEmpty_eq)

text \<open>
  C8, amended. The flag starts false. A change of the query starts a check that runs
  10 ms later and replaces a pending one; until a pending check runs, the flag keeps its
  value. When the check runs, the flag becomes true exactly if the query is non-empty and
  no registered item is visible; under an empty query it becomes false, whatever is
  registered. So 10 ms or more after a change of the query the flag is true exactly if
  the new query is non-empty and no item is visible under it: true for ``zz'' over
  ``Calendar'' and ``Mail'', false for the empty query over no items.
\<close>

theorem C8_empty_state_flag:
  "\<not> isEmpty mount_empty \<and>
   (q \<noteq> search s \<longrightarrow>
      checkTimeout (snd (input_change q (s, e))) = Some 10 \<and>
      empty_flag (input_change q (s, e)) = isEmpty e) \<and>
   (checkTimeout e = Some r \<and> t < r \<longrightarrow> empty_flag (elapse p t (s, e)) = isEmpty e) \<and>
   (checkTimeout e = Some r \<and> r \<le> t \<longrightarrow>
      empty_flag (elapse p t (s, e)) = (search s \<noteq> [] \<and> length (visibleItems p s) = 0)) \<and>
   (checkTimeout e = Some r \<and> r \<le> t \<and> search s = [] \<longrightarrow> \<not> empty_flag (elapse p t (s, e))) \<and>
   (q \<noteq> search s \<and> 10 \<le> t \<longrightarrow>
      empty_flag (elapse p t (input_change q (s, e)))
        = (q \<noteq> [] \<and> length (visibleItems p (setSearch q s)) = 0)) \<and>
   empty_flag (elapse default_props 10 (input_change ''zz'' (calendar_mail, mount_empty))) \<and>
   \<not> empty_flag (elapse default_props 10 (initial_command [], mount_empty))"
proof -
  have 1: "\<not> isEmpty mount_empty"
    by (simp add: mount_empty_def)
  have 2: "checkTimeout (snd (input_change q (s, e))) = Some 10 \<and>
      empty_flag (input_change q (s, e)) = isEmpty e" if "q \<noteq> search s"
    using that by (simp add: input_change_def empty_effect_def empty_flag_def)
  have 3: "empty_flag (elapse p t (s, e)) = isEmpty e" if "checkTimeout e = Some r \<and> t < r"
    using that by (simp add: elapse_def empty_flag_def)
  have 4: "empty_flag (elapse p t (s, e)) = (search s \<noteq> [] \<and> length (visibleItems p s) = 0)"
    if "checkTimeout e = Some r \<and> r \<le> t"
    using that by (simp add: elapse_def empty_flag_def checkEmpty_eq)
  have 5: "\<not> empty_flag (elapse p t (s, e))"
    if "checkTimeout e = Some r \<and> r \<le> t \<and> search s = []"
    using that by (simp add: elapse_def empty_flag_def checkEmpty_eq)
  have 6: "empty_flag (elapse p t (input_change q (s, e)))
        = (q \<noteq> [] \<and> length (visibleItems p (setSearch q s)) = 0)"
    if "q \<noteq> search s \<and> 10 \<le> t"
    using that
    by (simp add: input_change_def empty_effect_def elapse_def empty_flag_def checkEmpty_eq
        setSearch_def)
  have 7: "empty_flag (elapse default_props 10 (input_change ''zz'' (calendar_mail, mount_empty)))"
    unfolding checked_zz by (simp add: empty_flag_def)
  have 8: "\<not> empty_flag (elapse default_props 10 (initial_command [], mount_empty))"
    by (simp add: elapse_def mount_empty_def empty_flag_def checkEmpty_eq initial_command_def)
  from 1 2 3 4 5 6 7 8 show ?thesis by blast
qed

theorem C8_empty_state_flag_witness:
  "''zz'' \<noteq> search calendar_mail \<and> (10::nat) \<le> 10 \<and>
   length (visibleItems default_props (setSearch ''zz'' calendar_mail)) = 0 \<and>
   empty_flag (elapse default_props 10 (input_change ''zz'' (calendar_mail, mount_empty))) \<and>
   checkTimeout mount_empty = Some 10 \<and> (3::nat) < 10 \<and>
   \<not> empty_flag (elapse default_props 3 (calendar_mail, mount_empty)) \<and>
   search calendar_mail = [] \<and>
   \<not> empty_flag (elapse default_props 10 (calendar_mail, mount_empty))"
proof -
  have h: "''zz'' \<noteq> search calendar_mail" "search calendar_mail = []"
    "checkTimeout mount_empty = Some 10" "\<not> isEmpty mount_empty"
    by (simp_all add: calendar_mail_registry initial_command_def mount_empty_def)
  have v: "length (visibleItems default_props (setSearch ''zz'' calendar_mail)) = 0"
    by (simp add: calendar_mail_registry initial_command_def setSearch_def visibleItems_zz)
  have a: "empty_flag (elapse default_props 10 (input_change ''zz'' (calendar_mail, mount_empty)))"
    using C8_empty_state_flag [of "''zz''" calendar_mail mount_empty 10 10 default_props] h v
    by simp
  have b: "\<not> empty_flag (elapse default_props 3 (calendar_mail, mount_empty))"
    "\<not> empty_flag (elapse default_props 10 (calendar_mail, mount_empty))"
    using C8_empty_state_flag [of "''zz''" calendar_mail mount_empty 10 3 default_props]
      C8_empty_state_flag [of "''zz''" calendar_mail mount_empty 10 10 default_props] h
    by simp_all
  from h v a b show ?thesis by simp
qed

text \<open>
  An item that registers does not start a check: with the flag true under ``zz'', ``Jazz''
  registers and is visible, and the flag is still true however long one waits.
\<close>

lemma flag_not_rechecked_on_register:
  "visibleItems default_props (fst (elapse default_props t (item_registers (Some jazz_item) 2
      (elapse default_props 10 (input_change ''zz'' (calendar_mail, mount_empty))))))
     = [jazz_item] \<and>
   empty_flag (elapse default_props t (item_registers (Some jazz_item) 2
      (elapse default_props 10 (input_change ''zz'' (calendar_mail, mount_empty)))))"
  unfolding checked_zz
  by (simp add: item_registers_def registerItem_def array_set_def elapse_def empty_flag_def
      visibleItems_def hidden_def isVisible_zz)

section \<open>Resolved overlay position\<close>

lemma resolve_position_top_left:
  "resolve_position ov sd al off trigger content =
     \<lparr>pos_top = (case sd of
                  SideTop \<Rightarrow> rect_top trigger - rect_height content - off
                | SideBottom \<Rightarrow> rect_bottom trigger + off
                | _ \<Rightarrow> align_top al trigger content),
      pos_left = (case sd of
                  SideLeft \<Rightarrow> rect_left trigger - rect_width content - off
                | SideRight \<Rightarrow> rect_right trigger + off
                | _ \<Rightarrow> align_left al trigger content)\<rparr>"
  by (cases ov; cases sd)
     (simp_all add: resolve_position_def tooltip_position_def dropdown_position_def
        hovercard_position_def)

text \<open>
  C2. In each of the three overlays the position handed to \<open>setPosition\<close> puts the
  content before or after the trigger on the primary axis at distance \<open>sideOffset\<close>
  (top: \<open>trigger.top - content.height - offset\<close>; bottom: \<open>trigger.bottom + offset\<close>; left:
  \<open>trigger.left - content.width - offset\<close>; right: \<open>trigger.right + offset\<close>), and on the
  cross axis \<open>start\<close> puts the content's near edge on the trigger's near edge, \<open>center\<close>
  puts the two midpoints together, and \<open>end\<close> puts the content's far edge on the
  trigger's far edge.
\<close>

theorem C2_resolved_position:
  "(sd = SideTop \<longrightarrow>
      pos_top (resolve_position ov sd al off trigger content)
        = rect_top trigger - rect_height content - off) \<and>
   (sd = SideBottom \<longrightarrow>
      pos_top (resolve_position ov sd al off trigger content) = rect_bottom trigger + off) \<and>
   (sd = SideLeft \<longrightarrow>
      pos_left (resolve_position ov sd al off trigger content)
        = rect_left trigger - rect_width content - off) \<and>
   (sd = SideRight \<longrightarrow>
      pos_left (resolve_position ov sd al off trigger content) = rect_right trigger + off) \<and>
   (sd = SideTop \<or> sd = SideBottom \<longrightarrow>
      (al = AlignStart \<longrightarrow>
         pos_left (resolve_position ov sd al off trigger content) = rect_left trigger) \<and>
      (al = AlignCenter \<longrightarrow>
         pos_left (resolve_position ov sd al off trigger content) + rect_width content / 2
           = rect_left trigger + rect_width trigger / 2) \<and>
      (al = AlignEnd \<longrightarrow>
         pos_left (resolve_position ov sd al off trigger content) + rect_width content
           = rect_right trigger)) \<and>
   (sd = SideLeft \<or> sd = SideRight \<longrightarrow>
      (al = AlignStart \<longrightarrow>
         pos_top (resolve_position ov sd al off trigger content) = rect_top trigger) \<and>
      (al = AlignCenter \<longrightarrow>
         pos_top (resolve_position ov sd al off trigger content) + rect_height content / 2
           = rect_top trigger + rect_height trigger / 2) \<and>
      (al = AlignEnd \<longrightarrow>
         pos_top (resolve_position ov sd al off trigger content) + rect_height content
           = rect_bottom trigger))"
  by (cases sd; cases al)
     (simp_all add: resolve_position_top_left align_left_def align_top_def field_simps)

theorem C2_resolved_position_witness:
  "pos_top (resolve_position Tooltip SideTop AlignCenter 4 example_trigger example_content) = 86 \<and>
   pos_left (resolve_position Tooltip SideTop AlignCenter 4 example_trigger example_content) = 70"
  using C2_resolved_position [of SideTop Tooltip AlignCenter 4 example_trigger example_content]
  by (simp add: example_trigger_def example_content_def)

section \<open>The guard of the layout effect\<close>

text \<open>
  With both elements attached and the overlay open, rectangles that measure all zero
  are positioned like any others: at side top with offset 4 the effect calls
  \<open>setPosition({top: -4, left: 0})\<close>.
\<close>

theorem C9_zero_rect_positioned:
  "layout_effect Tooltip True (Some zero_rect) (Some zero_rect) SideTop AlignCenter 4
     = Some \<lparr>pos_top = - 4, pos_left = 0\<rparr>"
  by (simp add: layout_effect_def resolve_position_top_left zero_rect_def align_left_def)

text \<open>
  C9, amended. The positioning pass is skipped exactly when the overlay is closed or
  the trigger or the content has no element attached. With both attached it always
  yields a position, whatever the rectangles measure; for two all-zero rectangles that
  position is the offset on the primary axis and 0 on the cross axis.
\<close>

theorem C9_layout_effect_guard:
  "(layout_effect ov is_open triggerRef contentRef sd al off = None)
     = (\<not> is_open \<or> triggerRef = None \<or> contentRef = None) \<and>
   layout_effect ov True (Some trigger) (Some content) sd al off
     = Some (resolve_position ov sd al off trigger content) \<and>
   layout_effect ov True (Some zero_rect) (Some zero_rect) sd al off
     = Some \<lparr>pos_top = (if sd = SideTop then - off else if sd = SideBottom then off else 0),
             pos_left = (if sd = SideLeft then - off else if sd = SideRight then off else 0)\<rparr>"
  by (cases sd; cases al)
     (simp_all add: layout_effect_def resolve_position_top_left zero_rect_def align_left_def
        align_top_def rect_bottom_def rect_right_def)

theorem C9_layout_effect_guard_witness:
  "layout_effect DropdownMenu False (Some zero_rect) (Some zero_rect) SideBottom AlignStart 4 = None \<and>
   layout_effect DropdownMenu True None (Some zero_rect) SideBottom AlignStart 4 = None \<and>
   layout_effect DropdownMenu True (Some zero_rect) (Some zero_rect) SideBottom AlignStart 4
     = Some \<lparr>pos_top = 4, pos_left = 0\<rparr>"
  using C9_layout_effect_guard [of DropdownMenu False "Some zero_rect" "Some zero_rect" SideBottom AlignStart 4]
    C9_layout_effect_guard [of DropdownMenu True None "Some zero_rect" SideBottom AlignStart 4]
  by simp

section \<open>Scrollbar thumb\<close>

lemma max_percent: "max (x * 100) 10 = max x (1 / 10) * (100::real)"
  by (auto simp: max_def)

lemma thumbSize_positive: "0 < c \<Longrightarrow> thumbSize v c = max (v / c) (1 / 10) * 100"
  unfolding thumbSize_def by (simp only: if_True max_percent)

text \<open>
  With \<open>contentSize = 0\<close> (the default of the prop) the thumb size is 0, below the
  floor of 10 percent whatever the ratio is taken to be.
\<close>

theorem C6_thumb_below_floor:
  "thumbSize 0 0 = 0 \<and> (\<forall>ratio. thumbSize 0 0 < max ratio (1 / 10) * 100)"
  by (simp add: thumbSize_def max_def)

text \<open>
  C6, amended. In percent of the track: for \<open>contentSize > 0\<close> the thumb size is
  \<open>max(viewportSize / contentSize, 10%)\<close>, and for \<open>contentSize \<le> 0\<close> it is 0; the thumb
  position is \<open>(scrollPosition / (contentSize - viewportSize)) * (100 - thumbSize)\<close> when
  \<open>contentSize > viewportSize\<close> and 0 otherwise; for viewport 100, content 400 and
  offset 150 the position is one half of the track the thumb leaves free.
\<close>

theorem C6_thumb_geometry:
  "(0 < c \<longrightarrow> thumbSize v c = max (v / c) (1 / 10) * 100) \<and>
   (c \<le> 0 \<longrightarrow> thumbSize v c = 0) \<and>
   (v < c \<longrightarrow> thumbPosition x v c = (x / (c - v)) * (100 - thumbSize v c)) \<and>
   (c \<le> v \<longrightarrow> thumbPosition x v c = 0) \<and>
   thumbPosition 150 100 400 = (1 / 2) * (100 - thumbSize 100 400)"
proof (intro conjI impI)
  show "thumbSize v c = max (v / c) (1 / 10) * 100" if "0 < c"
    using that by (rule thumbSize_positive)
  show "thumbSize v c = 0" if "c \<le> 0"
    using that by (simp add: thumbSize_def)
  show "thumbPosition x v c = (x / (c - v)) * (100 - thumbSize v c)" if "v < c"
    using that by (simp add: thumbPosition_def)
  show "thumbPosition x v c = 0" if "c \<le> v"
    using that by (simp add: thumbPosition_def)
  show "thumbPosition 150 100 400 = (1 / 2) * (100 - thumbSize 100 400)"
    by (simp add: thumbPosition_def)
qed

theorem C6_thumb_geometry_witness:
  "(0::real) < 400 \<and> (100::real) < 400 \<and> thumbSize 100 400 = 25 \<and>
   thumbPosition 150 100 400 = 75 / 2"
  using C6_thumb_geometry [of 400 100 150]
  by (simp add: max_def)

section \<open>Filtering\<close>

lemma includes_str_sublist: "includes_str s sub = sublist sub s"
  by (induction s) (simp_all add: sublist_Cons_right)

lemma search_setSearch: "search (setSearch q s) = q"
  by (simp add: setSearch_def)

lemma items_setSearch: "items (setSearch q s) = items s"
  by (simp add: setSearch_def)

lemma visibleItems_setSearch:
  "visibleItems p (setSearch q s) = filter (isVisible p q) (registered (items s))"
  by (simp add: visibleItems_def hidden_def search_setSearch items_setSearch)

lemma defaultFilter_sublist:
  "defaultFilter b v q = (\<not> b \<or> q = [] \<or> sublist (toLowerCase q) (toLowerCase v))"
  by (simp add: defaultFilter_def includes_str_sublist)

lemma toLowerCase_examples:
  "toLowerCase ''MA'' = ''ma''"
  "toLowerCase ''Mail'' = ''mail''"
  "toLowerCase ''Calendar'' = ''calendar''"
  "toLowerCase ''a'' = ''a''"
  "toLowerCase ''ma'' = ''ma''"
  "toLowerCase ''Map'' = ''map''"
  by code_simp+

text \<open>
  With the custom predicate \<open>exact_match\<close> and the query cleared again, the item
  ``Mail'' is visible although the predicate rejects it against the empty query.
\<close>

theorem C1_custom_filter_bypassed:
  "mail_item \<in> set (visibleItems exact_props
      (setSearch [] (setSearch ''x'' (initial_command [Some mail_item])))) \<and>
   \<not> active_filter exact_props (allSearchableText mail_item) []"
  by (simp add: visibleItems_setSearch items_setSearch isVisible_def initial_command_def
      active_filter_def exact_props_def exact_match_def allSearchableText_def searchableText_def
      mail_item_def)

text \<open>
  C1, amended. After \<open>setSearch q\<close> a registered item is visible exactly when \<open>q\<close> is
  empty or the active predicate accepts the item's searchable text joined with its
  keywords against \<open>q\<close>; with an empty query every registered item is visible, whatever
  the predicate. The default predicate accepts when \<open>shouldFilter\<close> is off, when the
  query is empty, or when the lower-cased query is a substring of the lower-cased text; a
  supplied predicate replaces it.
\<close>

theorem C1_visible_after_setQuery:
  "(it \<in> set (registered (items s)) \<longrightarrow>
      (it \<in> set (visibleItems p (setSearch q s))
         \<longleftrightarrow> q = [] \<or> active_filter p (allSearchableText it) q)) \<and>
   (q = [] \<longrightarrow> visibleItems p (setSearch q s) = registered (items s)) \<and>
   (filter_prop p = None \<longrightarrow>
      active_filter p v q
        = (\<not> shouldFilter p \<or> q = [] \<or> sublist (toLowerCase q) (toLowerCase v))) \<and>
   (filter_prop p = Some f \<longrightarrow> active_filter p = f)"
  by (auto simp add: visibleItems_setSearch isVisible_def active_filter_def defaultFilter_sublist)

theorem C1_visible_after_setQuery_witness:
  "mail_item \<in> set (registered (items (initial_command [Some calendar_item, Some mail_item]))) \<and>
   mail_item \<in> set (visibleItems default_props
      (setSearch ''MA'' (initial_command [Some calendar_item, Some mail_item]))) \<and>
   active_filter default_props (allSearchableText mail_item) ''MA'' \<and>
   visibleItems default_props (setSearch ''MA'' (initial_command [Some calendar_item, Some mail_item]))
     = [mail_item]"
  using C1_visible_after_setQuery [of mail_item "initial_command [Some calendar_item, Some mail_item]"
      default_props "''MA''" "allSearchableText mail_item"]
  by (simp add: visibleItems_setSearch isVisible_def initial_command_def active_filter_def
      default_props_def defaultFilter_def allSearchableText_def searchableText_def
      mail_item_def calendar_item_def toLowerCase_examples)


section \<open>Selection\<close>

lemma visibleItems_selectedIndex_update:
  "visibleItems p (s\<lparr>selectedIndex := i\<rparr>) = visibleItems p s"
  by (simp add: visibleItems_def)

lemma visibleItems_handleSelect: "visibleItems p (handleSelect it s) = visibleItems p s"
  by (simp add: visibleItems_def handleSelect_def)

lemma visibleItems_handleKeyDown: "visibleItems p (handleKeyDown p k s) = visibleItems p s"
  by (simp add: handleKeyDown_def Let_def visibleItems_selectedIndex_update
      visibleItems_handleSelect split: option.split)








lemma handleKeyDown_ArrowDown:
  "handleKeyDown p ''ArrowDown'' s
     = s\<lparr>selectedIndex := (if selectedIndex s + 1 \<ge> int (length (visibleItems p s)) then 0
                            else selectedIndex s + 1)\<rparr>"
  by (simp add: handleKeyDown_def Let_def)

lemma handleKeyDown_ArrowUp:
  "handleKeyDown p ''ArrowUp'' s
     = s\<lparr>selectedIndex := (if selectedIndex s - 1 < 0 then int (length (visibleItems p s)) - 1
                            else selectedIndex s - 1)\<rparr>"
  by (simp add: handleKeyDown_def Let_def)



lemma handleKeyDown_Enter:
  "handleKeyDown p ''Enter'' s =
     (case nth_opt (visibleItems p s) (selectedIndex s) of
        Some selectedItem \<Rightarrow> handleSelect selectedItem s
      | None \<Rightarrow> s)"
  by (simp add: handleKeyDown_def Let_def)






lemma isVisible_ma:
  "\<not> isVisible default_props ''ma'' calendar_item" "isVisible default_props ''ma'' mail_item"
  by (simp_all add: isVisible_def active_filter_def default_props_def defaultFilter_def
      allSearchableText_def searchableText_def mail_item_def calendar_item_def
      toLowerCase_examples)

lemma filtered_calendar_mail:
  "setSearch ''ma'' calendar_mail
     = \<lparr>search = ''ma'', selectedIndex = 0, items = [Some calendar_item, Some mail_item],
        onSelect_calls = []\<rparr>"
  by (simp add: calendar_mail_registry initial_command_def setSearch_def)

lemma visibleItems_filtered:
  "visibleItems default_props
     \<lparr>search = ''ma'', selectedIndex = i, items = [Some calendar_item, Some mail_item],
      onSelect_calls = cs\<rparr> = [mail_item]"
  by (simp add: visibleItems_def hidden_def isVisible_ma)

text \<open>
  The highlight and the keyboard read the selected index differently: \<open>isSelected\<close>
  compares it with the index an item registered at, \<open>handleKeyDown\<close> takes it as a
  position among the visible items. With the query ``ma'' only ``Mail'', registered at 1,
  is visible. After the reset to 0 no item is highlighted while Enter selects ``Mail'';
  after the pointer moves onto ``Mail'' it is highlighted while Enter selects nothing.
\<close>

lemma highlight_and_activation_differ:
  "visibleItems default_props (setSearch ''ma'' calendar_mail) = [mail_item] \<and>
   selectedIndex (setSearch ''ma'' calendar_mail) = 0 \<and>
   \<not> isSelected default_props (setSearch ''ma'' calendar_mail) 0 \<and>
   \<not> isSelected default_props (setSearch ''ma'' calendar_mail) 1 \<and>
   onSelect_calls (handleKeyDown default_props ''Enter'' (setSearch ''ma'' calendar_mail))
     = [''Mail''] \<and>
   isSelected default_props (handleMouseEnter 1 (setSearch ''ma'' calendar_mail)) 1 \<and>
   handleKeyDown default_props ''Enter'' (handleMouseEnter 1 (setSearch ''ma'' calendar_mail))
     = handleMouseEnter 1 (setSearch ''ma'' calendar_mail)"
  by (simp add: filtered_calendar_mail visibleItems_filtered isSelected_def nth_opt_def
      isVisible_ma handleKeyDown_Enter handleMouseEnter_def handleSelect_def)
     (simp add: mail_item_def searchableText_def)

section \<open>Cyclic traversal\<close>

lemma wrap_mod:
  fixes n x :: int
  assumes "0 < n"
  shows "(if x mod n + 1 \<ge> n then 0 else x mod n + 1) = (x + 1) mod n"
proof -
  have r: "0 \<le> x mod n" "x mod n < n"
    using assms by simp_all
  have m: "(x mod n + 1) mod n = (x + 1) mod n"
    by (rule mod_add_left_eq)
  show ?thesis
  proof (cases "x mod n + 1 \<ge> n")
    case True
    with r have e: "x mod n + 1 = n" by linarith
    have "(x mod n + 1) mod n = 0" by (simp only: e mod_self)
    with True m show ?thesis by simp
  next
    case False
    with r have "(x mod n + 1) mod n = x mod n + 1" by simp
    with False m show ?thesis by simp
  qed
qed

lemma ArrowDown_funpow:
  assumes "0 \<le> selectedIndex s" and "selectedIndex s < int (length (visibleItems p s))"
  shows "(handleKeyDown p ''ArrowDown'' ^^ m) s
     = s\<lparr>selectedIndex := (selectedIndex s + int m) mod int (length (visibleItems p s))\<rparr>"
proof (induction m)
  case 0
  show ?case using assms by simp
next
  case (Suc m)
  have n: "0 < int (length (visibleItems p s))"
    using assms by linarith
  have "(handleKeyDown p ''ArrowDown'' ^^ Suc m) s
      = handleKeyDown p ''ArrowDown'' ((handleKeyDown p ''ArrowDown'' ^^ m) s)"
    by simp
  also have "\<dots> = handleKeyDown p ''ArrowDown''
      (s\<lparr>selectedIndex := (selectedIndex s + int m) mod int (length (visibleItems p s))\<rparr>)"
    by (simp only: Suc)
  also have "\<dots> = s\<lparr>selectedIndex :=
      (selectedIndex s + int m + 1) mod int (length (visibleItems p s))\<rparr>"
    using wrap_mod [OF n, of "selectedIndex s + int m"]
    by (auto simp add: handleKeyDown_ArrowDown visibleItems_selectedIndex_update
        split: if_splits)
  also have "selectedIndex s + int m + 1 = selectedIndex s + int (Suc m)"
    by simp
  finally show ?case .
qed

text \<open>
  On the selected index read as a position in the list of visible items: ArrowDown from
  the last position gives the first, ArrowUp from the first gives the last, neither
  changes the visible items, and ArrowDown pressed as many times as there are visible
  items gives back the state it started from.
\<close>

lemma arrow_keys_cycle_on_positions:
  "0 \<le> selectedIndex s \<and> selectedIndex s < int (length (visibleItems p s)) \<longrightarrow>
     (handleKeyDown p ''ArrowDown'' ^^ length (visibleItems p s)) s = s \<and>
     (selectedIndex s = int (length (visibleItems p s)) - 1 \<longrightarrow>
        selectedIndex (handleKeyDown p ''ArrowDown'' s) = 0) \<and>
     (selectedIndex s = 0 \<longrightarrow>
        selectedIndex (handleKeyDown p ''ArrowUp'' s) = int (length (visibleItems p s)) - 1) \<and>
     visibleItems p (handleKeyDown p ''ArrowDown'' s) = visibleItems p s \<and>
     visibleItems p (handleKeyDown p ''ArrowUp'' s) = visibleItems p s"
proof (intro impI conjI)
  assume a: "0 \<le> selectedIndex s \<and> selectedIndex s < int (length (visibleItems p s))"
  then show "(handleKeyDown p ''ArrowDown'' ^^ length (visibleItems p s)) s = s"
    by (simp add: ArrowDown_funpow)
  show "selectedIndex (handleKeyDown p ''ArrowDown'' s) = 0"
    if "selectedIndex s = int (length (visibleItems p s)) - 1"
    using that by (simp add: handleKeyDown_ArrowDown)
  show "selectedIndex (handleKeyDown p ''ArrowUp'' s) = int (length (visibleItems p s)) - 1"
    if "selectedIndex s = 0"
    using that by (simp add: handleKeyDown_ArrowUp)
  show "visibleItems p (handleKeyDown p ''ArrowDown'' s) = visibleItems p s"
    by (rule visibleItems_handleKeyDown)
  show "visibleItems p (handleKeyDown p ''ArrowUp'' s) = visibleItems p s"
    by (rule visibleItems_handleKeyDown)
qed

lemma three_items_state:
  "three_items = initial_command [Some calendar_item, Some mail_item, Some map_item]"
  by (simp add: three_items_def registerItem_def array_set_def initial_command_def)

lemma isVisible_ma_map: "isVisible default_props ''ma'' map_item"
  by (simp add: isVisible_def active_filter_def default_props_def defaultFilter_def
      allSearchableText_def searchableText_def map_item_def toLowerCase_examples)

lemma hovered_map:
  "handleMouseEnter 2 (setSearch ''ma'' three_items)
     = \<lparr>search = ''ma'', selectedIndex = 2,
        items = [Some calendar_item, Some mail_item, Some map_item], onSelect_calls = []\<rparr>"
  by (simp add: three_items_state initial_command_def setSearch_def handleMouseEnter_def
      nth_opt_def map_item_def)

lemma visibleItems_three:
  "visibleItems default_props
     \<lparr>search = ''ma'', selectedIndex = i,
      items = [Some calendar_item, Some mail_item, Some map_item], onSelect_calls = cs\<rparr>
     = [mail_item, map_item]"
  by (simp add: visibleItems_def hidden_def isVisible_ma isVisible_ma_map)

lemma isSelected_three:
  "isSelected default_props
     \<lparr>search = ''ma'', selectedIndex = i,
      items = [Some calendar_item, Some mail_item, Some map_item], onSelect_calls = cs\<rparr> n
     = (int n = i \<and> (n = 1 \<or> n = 2))"
proof -
  consider "n = 0" | "n = 1" | "n = 2" | "3 \<le> n" by linarith
  then show ?thesis
    by cases (auto simp add: isSelected_def nth_opt_def isVisible_ma isVisible_ma_map)
qed

text \<open>
  C7. Evaluation at the failing input. With ``Calendar'', ``Mail'' and ``Map'' registered
  and the query ``ma'', the visible items are ``Mail'' and ``Map''. The pointer moves onto
  ``Map'': the selected index is 2, the index ``Map'' registered at, and ``Map'' is the
  selected item. ArrowDown compares the index with the number of visible items, 2: the
  first press gives 0, where no item is selected (``Calendar'' is hidden), the second
  gives 1, where ``Mail'' is selected and ``Map'' is not. At that index Enter, which reads
  it as a position among the visible items, calls \<open>onSelect\<close> of ``Map''.
\<close>

theorem C7_selected_item_not_restored:
  "visibleItems default_props (handleMouseEnter 2 (setSearch ''ma'' three_items))
     = [mail_item, map_item] \<and>
   isSelected default_props (handleMouseEnter 2 (setSearch ''ma'' three_items)) 2 \<and>
   selectedIndex (handleKeyDown default_props ''ArrowDown''
      (handleMouseEnter 2 (setSearch ''ma'' three_items))) = 0 \<and>
   (\<forall>n. \<not> isSelected default_props (handleKeyDown default_props ''ArrowDown''
      (handleMouseEnter 2 (setSearch ''ma'' three_items))) n) \<and>
   selectedIndex ((handleKeyDown default_props ''ArrowDown'' ^^ 2)
      (handleMouseEnter 2 (setSearch ''ma'' three_items))) = 1 \<and>
   isSelected default_props ((handleKeyDown default_props ''ArrowDown'' ^^ 2)
      (handleMouseEnter 2 (setSearch ''ma'' three_items))) 1 \<and>
   \<not> isSelected default_props ((handleKeyDown default_props ''ArrowDown'' ^^ 2)
      (handleMouseEnter 2 (setSearch ''ma'' three_items))) 2 \<and>
   onSelect_calls (handleKeyDown default_props ''Enter''
      ((handleKeyDown default_props ''ArrowDown'' ^^ 2)
         (handleMouseEnter 2 (setSearch ''ma'' three_items)))) = [''Map'']"
proof -
  let ?h = "\<lparr>search = ''ma'', selectedIndex = 2,
    items = [Some calendar_item, Some mail_item, Some map_item], onSelect_calls = []\<rparr>"
  have two: "(f ^^ 2) x = f (f x)" for f :: "command_state \<Rightarrow> command_state" and x
    by (simp add: numeral_2_eq_2)
  have d1: "handleKeyDown default_props ''ArrowDown'' ?h
      = \<lparr>search = ''ma'', selectedIndex = 0,
         items = [Some calendar_item, Some mail_item, Some map_item], onSelect_calls = []\<rparr>"
    by (simp add: handleKeyDown_ArrowDown visibleItems_three)
  have d2: "(handleKeyDown default_props ''ArrowDown'' ^^ 2) ?h
      = \<lparr>search = ''ma'', selectedIndex = 1,
         items = [Some calendar_item, Some mail_item, Some map_item], onSelect_calls = []\<rparr>"
    unfolding two d1
    by (simp add: handleKeyDown_ArrowDown visibleItems_three)
  have e: "onSelect_calls (handleKeyDown default_props ''Enter''
      \<lparr>search = ''ma'', selectedIndex = 1,
         items = [Some calendar_item, Some mail_item, Some map_item], onSelect_calls = []\<rparr>)
      = [''Map'']"
    by (simp add: handleKeyDown_Enter visibleItems_three nth_opt_def handleSelect_def)
       (simp add: map_item_def searchableText_def)
  show ?thesis
    unfolding hovered_map d2 d1 e
    by (auto simp add: visibleItems_three isSelected_three)
qed

section \<open>Delayed open\<close>

lemma due_Nil: "due t [] = []"
  by (simp add: due_def)

lemma later_Nil: "later t [] = []"
  by (simp add: later_def)

lemma due_single: "due t [(h, r, v)] = (if r \<le> t then [v] else [])"
  by (simp add: due_def)

lemma later_single: "later t [(h, r, v)] = (if r \<le> t then [] else [(h, r - t, v)])"
  by (simp add: later_def)

lemma clearTimeout_single: "clearTimeout h [(h, r, v)] = []"
  by (simp add: clearTimeout_def)

lemma clearTimeout_Nil: "clearTimeout h [] = []"
  by (simp add: clearTimeout_def)

lemma tt_advance_idle: "tt_pending s = [] \<Longrightarrow> tt_advance p t s = s"
  by (simp add: tt_advance_def due_Nil later_Nil)

lemma timeout_ms_honoured: "0 < d \<Longrightarrow> d < 2147483648 \<Longrightarrow> timeout_ms (int d) = d"
  by (simp add: timeout_ms_def)

lemma tt_enter_leave_state:
  assumes "0 < d" and "d < 2147483648" and "t < d"
    and "tt_delayDuration p = int d" and "tt_pending s = []"
  shows "tt_enter_leave p t s =
     tt_setOpen p False (s\<lparr>tt_timeoutRef := None, tt_pending := [],
                            tt_next_handle := tt_next_handle s + 1\<rparr>)"
  using assms
  by (cases s)
     (simp add: tt_enter_leave_def tt_handleMouseEnter_def tt_advance_def due_single
        later_single tt_handleMouseLeave_def clearTimeout_single Let_def timeout_ms_honoured)

text \<open>
  A single pointer enter on a tooltip with nothing scheduled, followed by a pointer
  leave before the delay has passed: the timer is cleared and the tooltip stays closed.
\<close>

lemma tooltip_single_enter_cancelled:
  assumes "0 < d" and "d < 2147483648" and "t < d"
    and "tt_delayDuration p = int d" and "tt_pending s = []"
  shows "tt_pending (tt_enter_leave p t s) = [] \<and>
     tt_timeoutRef (tt_enter_leave p t s) = None \<and>
     tt_advance p t' (tt_enter_leave p t s) = tt_enter_leave p t s \<and>
     tt_onOpenChange_calls (tt_enter_leave p t s) = tt_onOpenChange_calls s @ [False] \<and>
     (tt_controlledOpen p = None \<longrightarrow> \<not> tt_open p (tt_enter_leave p t s))"
proof -
  note tt = tt_enter_leave_state [OF assms]
  have 1: "tt_pending (tt_enter_leave p t s) = []"
    by (simp add: tt tt_setOpen_def Let_def)
  have 2: "tt_timeoutRef (tt_enter_leave p t s) = None"
    by (simp add: tt tt_setOpen_def Let_def)
  have 3: "tt_advance p t' (tt_enter_leave p t s) = tt_enter_leave p t s"
    using 1 by (rule tt_advance_idle)
  have 4: "tt_onOpenChange_calls (tt_enter_leave p t s) = tt_onOpenChange_calls s @ [False]"
    by (simp add: tt tt_setOpen_def Let_def)
  have 5: "tt_controlledOpen p = None \<longrightarrow> \<not> tt_open p (tt_enter_leave p t s)"
    by (simp add: tt tt_setOpen_def tt_open_def Let_def)
  from 1 2 3 4 5 show ?thesis by blast
qed

lemma clearTimeout_tracked:
  assumes "list_all (\<lambda>(i, r, v). a = Some i \<or> b = Some i) ts"
  shows "(case b of Some h \<Rightarrow> clearTimeout h | None \<Rightarrow> (\<lambda>x. x))
           ((case a of Some h \<Rightarrow> clearTimeout h | None \<Rightarrow> (\<lambda>x. x)) ts) = []"
  using assms
  by (induction ts) (auto simp add: clearTimeout_def split: option.splits)

lemma hc_setOpen_tracked:
  assumes "hc_tracked s"
  shows "hc_setOpen p v s =
     s\<lparr>openTimeoutRef := (if v then Some (hc_next_handle s) else None),
       closeTimeoutRef := (if v then None else Some (hc_next_handle s)),
       hc_pending := [(hc_next_handle s, timeout_ms (if v then openDelay p else closeDelay p), v)],
       hc_next_handle := hc_next_handle s + 1\<rparr>"
  using clearTimeout_tracked [OF assms [unfolded hc_tracked_def]]
  by (cases s) (auto simp add: hc_setOpen_def Let_def split: option.splits)

lemma hc_setOpen_keeps_tracked: "hc_tracked s \<Longrightarrow> hc_tracked (hc_setOpen p v s)"
  by (simp add: hc_setOpen_tracked) (simp add: hc_tracked_def)

lemma hc_enter_leave_state:
  assumes "0 < d" and "d < 2147483648" and "t < d" and "openDelay p = int d" and "hc_tracked s"
  shows "hc_enter_leave p t s =
     s\<lparr>openTimeoutRef := None, closeTimeoutRef := Some (hc_next_handle s + 1),
       hc_pending := [(hc_next_handle s + 1, timeout_ms (closeDelay p), False)],
       hc_next_handle := hc_next_handle s + 2\<rparr>"
proof -
  let ?s1 = "hc_setOpen p True s"
  have s1: "?s1 = s\<lparr>openTimeoutRef := Some (hc_next_handle s), closeTimeoutRef := None,
       hc_pending := [(hc_next_handle s, d, True)], hc_next_handle := hc_next_handle s + 1\<rparr>"
    using assms(1,2,4) by (simp add: hc_setOpen_tracked [OF assms(5)] timeout_ms_honoured)
  let ?s2 = "hc_advance p t ?s1"
  have s2: "?s2 = s\<lparr>openTimeoutRef := Some (hc_next_handle s), closeTimeoutRef := None,
       hc_pending := [(hc_next_handle s, d - t, True)], hc_next_handle := hc_next_handle s + 1\<rparr>"
    using assms(3) by (simp add: s1 hc_advance_def due_single later_single)
  have t2: "hc_tracked ?s2"
    by (simp add: s2 hc_tracked_def)
  show ?thesis
    unfolding hc_enter_leave_def hc_handleMouseEnter_def hc_handleMouseLeave_def
    by (simp add: hc_setOpen_tracked [OF t2]) (simp add: s2)
qed

lemma hc_fire_fold_frame:
  "openTimeoutRef (fold (\<lambda>v. hc_fire p v) vs s) = openTimeoutRef s \<and>
   closeTimeoutRef (fold (\<lambda>v. hc_fire p v) vs s) = closeTimeoutRef s \<and>
   hc_pending (fold (\<lambda>v. hc_fire p v) vs s) = hc_pending s"
  by (induction vs arbitrary: s) (simp_all add: hc_fire_def Let_def)

lemma hc_advance_keeps_tracked: "hc_tracked s \<Longrightarrow> hc_tracked (hc_advance p t s)"
  by (simp add: hc_advance_def hc_tracked_def hc_fire_fold_frame later_def list_all_iff)
     auto

lemma cancelClose_keeps_tracked: "hc_tracked s \<Longrightarrow> hc_tracked (cancelClose s)"
  by (auto simp add: cancelClose_def hc_tracked_def clearTimeout_def list_all_iff
      split: option.splits)

lemma closed_hovercard_tracked: "hc_tracked closed_hovercard"
  by (simp add: hc_tracked_def closed_hovercard_def)

text \<open>
  The hover card, from any state whose scheduled callbacks are held by its refs: a
  pointer leave before the open delay has passed clears the pending open timer and leaves
  only the close timer; whatever time passes afterwards, \<open>onOpenChange\<close> is called with
  false at most and the card is not open unless it was before.
\<close>

lemma hovercard_pending_open_cancelled:
  assumes "0 < d" and "d < 2147483648" and "t < d" and "openDelay q = int d" and "hc_tracked c"
  shows "hc_pending (hc_enter_leave q t c)
       = [(hc_next_handle c + 1, timeout_ms (closeDelay q), False)] \<and>
     openTimeoutRef (hc_enter_leave q t c) = None \<and>
     hc_onOpenChange_calls (hc_advance q t' (hc_enter_leave q t c))
       = hc_onOpenChange_calls c @ (if timeout_ms (closeDelay q) \<le> t' then [False] else []) \<and>
     (hc_uncontrolledOpen (hc_advance q t' (hc_enter_leave q t c)) \<longrightarrow> hc_uncontrolledOpen c)"
proof -
  note hc = hc_enter_leave_state [OF assms]
  have 6: "hc_pending (hc_enter_leave q t c)
      = [(hc_next_handle c + 1, timeout_ms (closeDelay q), False)]"
    by (simp add: hc)
  have 7: "openTimeoutRef (hc_enter_leave q t c) = None"
    by (simp add: hc)
  have 8: "hc_onOpenChange_calls (hc_advance q t' (hc_enter_leave q t c))
       = hc_onOpenChange_calls c @ (if timeout_ms (closeDelay q) \<le> t' then [False] else [])"
    by (simp add: hc hc_advance_def due_single later_single hc_fire_def Let_def)
  have 9: "hc_uncontrolledOpen (hc_advance q t' (hc_enter_leave q t c)) \<longrightarrow> hc_uncontrolledOpen c"
    by (simp add: hc hc_advance_def due_single later_single hc_fire_def Let_def)
  from 6 7 8 9 show ?thesis by blast
qed

lemma timeout_ms_examples: "timeout_ms 700 = 700" "timeout_ms 300 = 300"
  by (simp_all add: timeout_ms_def)

lemma due_later_pair:
  "due t [(h, r, v), (h', r, v')] = (if r \<le> t then [v, v'] else [])"
  "later t [(h, r, v), (h', r, v')] = (if r \<le> t then [] else [(h, r - t, v), (h', r - t, v')])"
  by (simp_all add: due_def later_def)

lemma tooltip_700_simps:
  "tt_controlledOpen tooltip_700 = None" "tt_delayDuration tooltip_700 = 700"
  by (simp_all add: tooltip_700_def)

lemma hovercard_defaults_simps:
  "hc_controlledOpen hovercard_defaults = None" "openDelay hovercard_defaults = 700"
  "closeDelay hovercard_defaults = 300"
  by (simp_all add: hovercard_defaults_def)

text \<open>
  C4. Evaluation at the failing input. A closed tooltip with a delay of 700 ms and
  nothing scheduled receives two pointer enters and, 1 ms later, a pointer leave. The
  second enter has written its handle over the first, so the leave clears the second
  timer only: the first is still scheduled after the leave, and when the 700 ms are over
  it calls \<open>setOpen(true)\<close> and the tooltip is open. The hover card, which clears before it
  schedules, stays closed on the same events.
\<close>

theorem C4_second_enter_leaks_timer:
  "tt_pending (tt_handleMouseLeave tooltip_700 (tt_advance tooltip_700 1
      (tt_handleMouseEnter tooltip_700 (tt_handleMouseEnter tooltip_700 closed_tooltip))))
     = [(1, 699, True)] \<and>
   tt_open tooltip_700 (tt_advance tooltip_700 699
     (tt_handleMouseLeave tooltip_700 (tt_advance tooltip_700 1
        (tt_handleMouseEnter tooltip_700 (tt_handleMouseEnter tooltip_700 closed_tooltip))))) \<and>
   tt_onOpenChange_calls (tt_advance tooltip_700 699
     (tt_handleMouseLeave tooltip_700 (tt_advance tooltip_700 1
        (tt_handleMouseEnter tooltip_700 (tt_handleMouseEnter tooltip_700 closed_tooltip)))))
     = [False, True] \<and>
   \<not> hc_open hovercard_defaults (hc_advance hovercard_defaults 5000
     (hc_handleMouseLeave hovercard_defaults (hc_advance hovercard_defaults 1
        (hc_handleMouseEnter hovercard_defaults
           (hc_handleMouseEnter hovercard_defaults closed_hovercard))))) \<and>
   hc_onOpenChange_calls (hc_advance hovercard_defaults 5000
     (hc_handleMouseLeave hovercard_defaults (hc_advance hovercard_defaults 1
        (hc_handleMouseEnter hovercard_defaults
           (hc_handleMouseEnter hovercard_defaults closed_hovercard)))))
     = [False]"
proof -
  have e2: "tt_handleMouseEnter tooltip_700 (tt_handleMouseEnter tooltip_700 closed_tooltip)
      = \<lparr>tt_uncontrolledOpen = False, tt_timeoutRef = Some 2,
         tt_pending = [(1, 700, True), (2, 700, True)], tt_next_handle = 3,
         tt_onOpenChange_calls = []\<rparr>"
    by (simp add: tt_handleMouseEnter_def tooltip_700_simps closed_tooltip_def Let_def
        timeout_ms_examples)
  have l: "tt_handleMouseLeave tooltip_700 (tt_advance tooltip_700 1
      (tt_handleMouseEnter tooltip_700 (tt_handleMouseEnter tooltip_700 closed_tooltip)))
      = \<lparr>tt_uncontrolledOpen = False, tt_timeoutRef = None,
         tt_pending = [(1, 699, True)], tt_next_handle = 3,
         tt_onOpenChange_calls = [False]\<rparr>"
    by (simp add: e2 tt_advance_def due_later_pair tt_handleMouseLeave_def clearTimeout_def
        tt_setOpen_def tooltip_700_simps Let_def)
  have f: "tt_advance tooltip_700 699
      \<lparr>tt_uncontrolledOpen = False, tt_timeoutRef = None,
         tt_pending = [(1, 699, True)], tt_next_handle = 3,
         tt_onOpenChange_calls = [False]\<rparr>
      = \<lparr>tt_uncontrolledOpen = True, tt_timeoutRef = None,
         tt_pending = [], tt_next_handle = 3,
         tt_onOpenChange_calls = [False, True]\<rparr>"
    by (simp add: tt_advance_def due_single later_single tt_setOpen_def tooltip_700_simps Let_def)
  have h2: "hc_handleMouseEnter hovercard_defaults
      (hc_handleMouseEnter hovercard_defaults closed_hovercard)
      = \<lparr>hc_uncontrolledOpen = False, openTimeoutRef = Some 2, closeTimeoutRef = None,
         hc_pending = [(2, 700, True)], hc_next_handle = 3, hc_onOpenChange_calls = []\<rparr>"
    by (simp add: hc_handleMouseEnter_def hc_setOpen_def hovercard_defaults_simps
        closed_hovercard_def clearTimeout_def Let_def timeout_ms_examples)
  have hl: "hc_handleMouseLeave hovercard_defaults (hc_advance hovercard_defaults 1
      (hc_handleMouseEnter hovercard_defaults
         (hc_handleMouseEnter hovercard_defaults closed_hovercard)))
      = \<lparr>hc_uncontrolledOpen = False, openTimeoutRef = None, closeTimeoutRef = Some 3,
         hc_pending = [(3, 300, False)], hc_next_handle = 4, hc_onOpenChange_calls = []\<rparr>"
    by (simp add: h2 hc_advance_def due_single later_single hc_handleMouseLeave_def
        hc_setOpen_def hovercard_defaults_simps clearTimeout_def Let_def timeout_ms_examples)
  have hf: "hc_advance hovercard_defaults 5000
      \<lparr>hc_uncontrolledOpen = False, openTimeoutRef = None, closeTimeoutRef = Some 3,
         hc_pending = [(3, 300, False)], hc_next_handle = 4, hc_onOpenChange_calls = []\<rparr>
      = \<lparr>hc_uncontrolledOpen = False, openTimeoutRef = None, closeTimeoutRef = Some 3,
         hc_pending = [], hc_next_handle = 4, hc_onOpenChange_calls = [False]\<rparr>"
    by (simp add: hc_advance_def due_single later_single hc_fire_def hovercard_defaults_simps
        Let_def)
  show ?thesis
    unfolding l f hl hf
    by (simp add: tt_open_def hc_open_def tooltip_700_simps hovercard_defaults_simps)
qed

section \<open>Dismissal of the dropdown menu\<close>

lemma dismissal_effect_listening: "dd_listening (dismissal_effect p s) = dd_open p (dismissal_effect p s)"
  by (simp add: dismissal_effect_def dd_open_def split: option.split)

lemma dismissal_effect_fixed: "dd_listening s = dd_open p s \<Longrightarrow> dismissal_effect p s = s"
  by (simp add: dismissal_effect_def)

lemma outside_click_closes:
  assumes "dd_controlledOpen p = None" and "dd_uncontrolledOpen s" and "dd_mounted s"
    and "dd_trigger_attached s" and "dd_listening s"
  shows "document_mousedown p OutsideBoth s
     = s\<lparr>dd_uncontrolledOpen := False, dd_listening := False,
         dd_trace := dd_trace s @ [OnOpenChange False]\<rparr>"
  using assms
  by (cases s)
     (simp add: document_mousedown_def handleClickOutside_def content_attached_def dd_open_def
        dd_setOpen_def dismissal_effect_def Let_def)

lemma escape_closes:
  assumes "dd_controlledOpen p = None" and "dd_uncontrolledOpen s"
    and "dd_trigger_attached s" and "dd_listening s"
  shows "document_keydown p ''Escape'' s
     = s\<lparr>dd_uncontrolledOpen := False, dd_listening := False, dd_focus := FocusTrigger,
         dd_trace := dd_trace s @ [OnOpenChange False]\<rparr>"
  using assms
  by (cases s)
     (simp add: document_keydown_def handleEscape_def dd_open_def dd_setOpen_def
        dismissal_effect_def Let_def)

lemma inside_click_ignored:
  assumes "dd_listening s = dd_open p s" and "target = InsideContent \<or> target = InsideTrigger"
  shows "document_mousedown p target s = s"
  using assms
  by (auto simp add: document_mousedown_def handleClickOutside_def dismissal_effect_fixed)

lemma escape_closes_unattached:
  assumes "dd_controlledOpen p = None" and "dd_uncontrolledOpen s"
    and "\<not> dd_trigger_attached s" and "dd_listening s"
  shows "document_keydown p ''Escape'' s
     = s\<lparr>dd_uncontrolledOpen := False, dd_listening := False,
         dd_trace := dd_trace s @ [OnOpenChange False]\<rparr>"
  using assms
  by (cases s)
     (simp add: document_keydown_def handleEscape_def dd_open_def dd_setOpen_def
        dismissal_effect_def Let_def)

lemma other_key_ignored:
  assumes "dd_listening s = dd_open p s" and "k \<noteq> ''Escape''"
  shows "document_keydown p k s = s"
  using assms
  by (simp add: document_keydown_def handleEscape_def dismissal_effect_fixed)

lemma controlled_outside_click_relays:
  assumes "dd_controlledOpen p = Some True" and "dd_mounted s"
    and "dd_trigger_attached s" and "dd_listening s"
  shows "document_mousedown p OutsideBoth s = s\<lparr>dd_trace := dd_trace s @ [OnOpenChange False]\<rparr>"
  using assms
  by (cases s)
     (simp add: document_mousedown_def handleClickOutside_def content_attached_def dd_open_def
        dd_setOpen_def dismissal_effect_def Let_def)

lemma controlled_escape_relays:
  assumes "dd_controlledOpen p = Some True" and "dd_trigger_attached s" and "dd_listening s"
  shows "document_keydown p ''Escape'' s
     = s\<lparr>dd_focus := FocusTrigger, dd_trace := dd_trace s @ [OnOpenChange False]\<rparr>"
  using assms
  by (cases s)
     (simp add: document_keydown_def handleEscape_def dd_open_def dd_setOpen_def
        dismissal_effect_def Let_def)

text \<open>
  An open tooltip and an open hover card stay open on Escape and on a mouse-down outside
  them: they have no document listeners. A menu whose caller holds it open stays open on
  an outside mouse-down, and two outside mouse-downs call \<open>onOpenChange(false)\<close> twice.
\<close>

theorem C5_not_every_overlay_dismisses:
  "tt_open tooltip_700 (tt_event tooltip_700 (DocumentKeyDown ''Escape'') open_tooltip) \<and>
   tt_open tooltip_700 (tt_event tooltip_700 (DocumentMouseDown OutsideBoth) open_tooltip) \<and>
   hc_open hovercard_defaults
     (hc_event hovercard_defaults (DocumentKeyDown ''Escape'') open_hovercard) \<and>
   hc_open hovercard_defaults
     (hc_event hovercard_defaults (DocumentMouseDown OutsideBoth) open_hovercard) \<and>
   dd_open held_open (document_mousedown held_open OutsideBoth open_menu) \<and>
   dd_trace (document_mousedown held_open OutsideBoth
      (document_mousedown held_open OutsideBoth open_menu))
     = [OnOpenChange False, OnOpenChange False]"
  by (simp add: tt_event_def hc_event_def tt_open_def hc_open_def tooltip_700_simps
      hovercard_defaults_simps open_tooltip_def open_hovercard_def held_open_def open_menu_def
      document_mousedown_def handleClickOutside_def content_attached_def dd_open_def
      dd_setOpen_def dismissal_effect_def Let_def)

text \<open>
  C5, amended. The dropdown menu. (1) A menu that owns its state, open and mounted with
  its trigger attached and its listeners attached: a mouse-down outside content and
  trigger closes it with one call of \<open>onOpenChange(false)\<close> and detaches the listeners,
  and a further outside mouse-down changes nothing. (2) A mouse-down inside the content
  or the trigger changes nothing. (3) Escape on an open menu that owns its state closes
  it with one call of \<open>onOpenChange(false)\<close>, detaches the listeners, and moves focus to
  the trigger if one is attached; another key changes nothing. (4) While the listeners
  are not attached, document events change nothing; after every document event and every
  click on the trigger the listeners are attached exactly when the menu is open; and
  unmounting detaches them. (5) A menu whose caller holds it open does not change state:
  an outside mouse-down or Escape calls \<open>onOpenChange(false)\<close> and leaves it open with its
  listeners attached. (6) A tooltip and a hover card are not changed by a mouse-down or
  a key press on the document.
\<close>

theorem C5_dismissal:
  "(dd_controlledOpen p = None \<and> dd_uncontrolledOpen s \<and> dd_mounted s \<and>
    dd_trigger_attached s \<and> dd_listening s \<longrightarrow>
      \<not> dd_open p (document_mousedown p OutsideBoth s) \<and>
      dd_trace (document_mousedown p OutsideBoth s) = dd_trace s @ [OnOpenChange False] \<and>
      \<not> dd_listening (document_mousedown p OutsideBoth s) \<and>
      document_mousedown p OutsideBoth (document_mousedown p OutsideBoth s)
        = document_mousedown p OutsideBoth s) \<and>
   (dd_listening s = dd_open p s \<longrightarrow>
      document_mousedown p InsideContent s = s \<and>
      document_mousedown p InsideTrigger s = s) \<and>
   (dd_controlledOpen p = None \<and> dd_uncontrolledOpen s \<and> dd_listening s \<longrightarrow>
      \<not> dd_open p (document_keydown p ''Escape'' s) \<and>
      dd_trace (document_keydown p ''Escape'' s) = dd_trace s @ [OnOpenChange False] \<and>
      \<not> dd_listening (document_keydown p ''Escape'' s) \<and>
      dd_focus (document_keydown p ''Escape'' s)
        = (if dd_trigger_attached s then FocusTrigger else dd_focus s)) \<and>
   (dd_listening s = dd_open p s \<and> k \<noteq> ''Escape'' \<longrightarrow> document_keydown p k s = s) \<and>
   (\<not> dd_listening s \<longrightarrow>
      document_mousedown p target s = s \<and> document_keydown p k s = s) \<and>
   (dd_listening s = dd_open p s \<longrightarrow>
      dd_listening (document_mousedown p target s) = dd_open p (document_mousedown p target s) \<and>
      dd_listening (document_keydown p k s) = dd_open p (document_keydown p k s)) \<and>
   dd_listening (trigger_click p tp s) = dd_open p (trigger_click p tp s) \<and>
   \<not> dd_listening (dd_unmount s) \<and>
   (dd_controlledOpen p = Some True \<and> dd_mounted s \<and> dd_trigger_attached s \<and>
    dd_listening s \<longrightarrow>
      document_mousedown p OutsideBoth s = s\<lparr>dd_trace := dd_trace s @ [OnOpenChange False]\<rparr> \<and>
      document_keydown p ''Escape'' s
        = s\<lparr>dd_focus := FocusTrigger, dd_trace := dd_trace s @ [OnOpenChange False]\<rparr> \<and>
      dd_open p (document_mousedown p OutsideBoth s) \<and>
      dd_listening (document_mousedown p OutsideBoth s)) \<and>
   tt_event tq (DocumentMouseDown target) ts = ts \<and>
   tt_event tq (DocumentKeyDown k) ts = ts \<and>
   hc_event hq (DocumentMouseDown target) hs = hs \<and>
   hc_event hq (DocumentKeyDown k) hs = hs"
proof -
  have a: "\<not> dd_open p (document_mousedown p OutsideBoth s) \<and>
      dd_trace (document_mousedown p OutsideBoth s) = dd_trace s @ [OnOpenChange False] \<and>
      \<not> dd_listening (document_mousedown p OutsideBoth s) \<and>
      document_mousedown p OutsideBoth (document_mousedown p OutsideBoth s)
        = document_mousedown p OutsideBoth s"
    if h: "dd_controlledOpen p = None \<and> dd_uncontrolledOpen s \<and> dd_mounted s \<and>
      dd_trigger_attached s \<and> dd_listening s"
  proof -
    have out: "document_mousedown p OutsideBoth s
        = s\<lparr>dd_uncontrolledOpen := False, dd_listening := False,
            dd_trace := dd_trace s @ [OnOpenChange False]\<rparr>"
      using h by (intro outside_click_closes) simp_all
    have 3: "\<not> dd_listening (document_mousedown p OutsideBoth s)"
      by (simp add: out)
    have 4: "document_mousedown p OutsideBoth (document_mousedown p OutsideBoth s)
        = document_mousedown p OutsideBoth s"
      using 3
      by (simp add: document_mousedown_def [of p OutsideBoth "document_mousedown p OutsideBoth s"])
    show ?thesis
      using h 3 4 by (simp add: out dd_open_def)
  qed
  have b: "document_mousedown p InsideContent s = s \<and> document_mousedown p InsideTrigger s = s"
    if "dd_listening s = dd_open p s"
    using that by (simp add: inside_click_ignored)
  have c: "\<not> dd_open p (document_keydown p ''Escape'' s) \<and>
      dd_trace (document_keydown p ''Escape'' s) = dd_trace s @ [OnOpenChange False] \<and>
      \<not> dd_listening (document_keydown p ''Escape'' s) \<and>
      dd_focus (document_keydown p ''Escape'' s)
        = (if dd_trigger_attached s then FocusTrigger else dd_focus s)"
    if h: "dd_controlledOpen p = None \<and> dd_uncontrolledOpen s \<and> dd_listening s"
  proof (cases "dd_trigger_attached s")
    case True
    have "document_keydown p ''Escape'' s
        = s\<lparr>dd_uncontrolledOpen := False, dd_listening := False, dd_focus := FocusTrigger,
            dd_trace := dd_trace s @ [OnOpenChange False]\<rparr>"
      using h True by (intro escape_closes) simp_all
    then show ?thesis using h True by (simp add: dd_open_def)
  next
    case False
    have "document_keydown p ''Escape'' s
        = s\<lparr>dd_uncontrolledOpen := False, dd_listening := False,
            dd_trace := dd_trace s @ [OnOpenChange False]\<rparr>"
      using h False by (intro escape_closes_unattached) simp_all
    then show ?thesis using h False by (simp add: dd_open_def)
  qed
  have d: "document_keydown p k s = s" if "dd_listening s = dd_open p s \<and> k \<noteq> ''Escape''"
    using that by (simp add: other_key_ignored)
  have e: "document_mousedown p target s = s \<and> document_keydown p k s = s"
    if "\<not> dd_listening s"
    using that by (simp add: document_mousedown_def document_keydown_def)
  have f: "dd_listening (document_mousedown p target s) = dd_open p (document_mousedown p target s) \<and>
      dd_listening (document_keydown p k s) = dd_open p (document_keydown p k s)"
    if "dd_listening s = dd_open p s"
    using that
    by (simp add: document_mousedown_def document_keydown_def dismissal_effect_listening)
  have g: "dd_listening (trigger_click p tp s) = dd_open p (trigger_click p tp s)"
    by (simp only: trigger_click_def dismissal_effect_listening)
  have i: "\<not> dd_listening (dd_unmount s)"
    by (simp add: dd_unmount_def)
  have j: "document_mousedown p OutsideBoth s = s\<lparr>dd_trace := dd_trace s @ [OnOpenChange False]\<rparr> \<and>
      document_keydown p ''Escape'' s
        = s\<lparr>dd_focus := FocusTrigger, dd_trace := dd_trace s @ [OnOpenChange False]\<rparr> \<and>
      dd_open p (document_mousedown p OutsideBoth s) \<and>
      dd_listening (document_mousedown p OutsideBoth s)"
    if h: "dd_controlledOpen p = Some True \<and> dd_mounted s \<and> dd_trigger_attached s \<and>
      dd_listening s"
  proof -
    have m: "document_mousedown p OutsideBoth s = s\<lparr>dd_trace := dd_trace s @ [OnOpenChange False]\<rparr>"
      using h by (intro controlled_outside_click_relays) simp_all
    have n: "document_keydown p ''Escape'' s
        = s\<lparr>dd_focus := FocusTrigger, dd_trace := dd_trace s @ [OnOpenChange False]\<rparr>"
      using h by (intro controlled_escape_relays) simp_all
    show ?thesis using h by (simp add: m n dd_open_def)
  qed
  have l: "tt_event tq (DocumentMouseDown target) ts = ts \<and>
      tt_event tq (DocumentKeyDown k) ts = ts \<and>
      hc_event hq (DocumentMouseDown target) hs = hs \<and>
      hc_event hq (DocumentKeyDown k) hs = hs"
    by (simp add: tt_event_def hc_event_def)
  from a b c d e f g i j l show ?thesis by blast
qed

theorem C5_dismissal_witness:
  "dd_controlledOpen uncontrolled = None \<and> dd_uncontrolledOpen open_menu \<and> dd_mounted open_menu \<and>
   dd_trigger_attached open_menu \<and> dd_listening open_menu \<and>
   dd_listening open_menu = dd_open uncontrolled open_menu \<and>
   \<not> dd_open uncontrolled (document_mousedown uncontrolled OutsideBoth open_menu) \<and>
   dd_trace (document_mousedown uncontrolled OutsideBoth
      (document_mousedown uncontrolled OutsideBoth open_menu)) = [OnOpenChange False] \<and>
   document_mousedown uncontrolled InsideContent open_menu = open_menu \<and>
   dd_focus (document_keydown uncontrolled ''Escape'' open_menu) = FocusTrigger \<and>
   \<not> dd_open uncontrolled (document_keydown uncontrolled ''Escape'' open_menu) \<and>
   ''Enter'' \<noteq> ''Escape'' \<and> document_keydown uncontrolled ''Enter'' open_menu = open_menu \<and>
   dd_controlledOpen held_open = Some True \<and>
   dd_open held_open (document_mousedown held_open OutsideBoth open_menu) \<and>
   dd_trace (document_mousedown held_open OutsideBoth open_menu) = [OnOpenChange False]"
proof -
  have h: "dd_controlledOpen uncontrolled = None" "dd_uncontrolledOpen open_menu"
    "dd_mounted open_menu" "dd_trigger_attached open_menu" "dd_listening open_menu"
    "dd_listening open_menu = dd_open uncontrolled open_menu"
    "dd_controlledOpen held_open = Some True" "dd_trace open_menu = []"
    by (simp_all add: uncontrolled_def open_menu_def held_open_def dd_open_def)
  have u: "\<not> dd_open uncontrolled (document_mousedown uncontrolled OutsideBoth open_menu)"
    "dd_trace (document_mousedown uncontrolled OutsideBoth
      (document_mousedown uncontrolled OutsideBoth open_menu)) = [OnOpenChange False]"
    "document_mousedown uncontrolled InsideContent open_menu = open_menu"
    "dd_focus (document_keydown uncontrolled ''Escape'' open_menu) = FocusTrigger"
    "\<not> dd_open uncontrolled (document_keydown uncontrolled ''Escape'' open_menu)"
    "document_keydown uncontrolled ''Enter'' open_menu = open_menu"
    using C5_dismissal [of uncontrolled open_menu "''Enter''"] h
    by simp_all
  have c: "dd_open held_open (document_mousedown held_open OutsideBoth open_menu)"
    "dd_trace (document_mousedown held_open OutsideBoth open_menu) = [OnOpenChange False]"
    using C5_dismissal [of held_open open_menu] h
    by (simp_all add: dd_open_def)
  from h u c show ?thesis by simp
qed

section \<open>Activation of menu items\<close>

text \<open>
  C10. Evaluation at the failing inputs. A key press on Enter or Space on a plain item
  leaves the menu open, with or without a caller's \<open>onClick\<close> that does not prevent the
  default: \<open>handleKeyDown\<close> calls \<open>e.preventDefault()\<close> before it hands the event to
  \<open>handleClick\<close>, which then finds \<open>e.defaultPrevented\<close> set. A mouse click on a plain item
  rendered as a button with a caller's \<open>onClick\<close> leaves the menu open as well: the
  spread props replace \<open>handleClick\<close>. The sibling paths do close the menu: a click on an
  item without \<open>onClick\<close>, and a click on an \<open>asChild\<close> item whose \<open>onClick\<close> does not
  prevent the default.
\<close>

theorem C10_keyboard_activation_keeps_menu_open:
  "dd_open uncontrolled (snd (item_keydown uncontrolled plain_item enter_key open_menu)) \<and>
   dd_open uncontrolled (snd (item_keydown uncontrolled plain_item space_key open_menu)) \<and>
   dd_open uncontrolled
     (snd (item_keydown uncontrolled (plain_item\<lparr>onClick := Some Plain\<rparr>) enter_key open_menu)) \<and>
   dd_trace (snd (item_keydown uncontrolled (plain_item\<lparr>onClick := Some Plain\<rparr>) enter_key open_menu))
     = [OnClick] \<and>
   dd_open uncontrolled
     (snd (item_click uncontrolled (plain_item\<lparr>onClick := Some Plain\<rparr>) mouse_click open_menu)) \<and>
   \<not> dd_open uncontrolled (snd (item_click uncontrolled plain_item mouse_click open_menu)) \<and>
   \<not> dd_open uncontrolled
     (snd (item_click uncontrolled (plain_item\<lparr>onClick := Some Plain, asChild := True\<rparr>)
        mouse_click open_menu)) \<and>
   dd_open uncontrolled
     (snd (item_click uncontrolled
        (plain_item\<lparr>onClick := Some CallsPreventDefault, asChild := True\<rparr>)
        mouse_click open_menu))"
  by (simp add: item_keydown_def item_handleKeyDown_def item_handleClick_def item_click_def
      plain_item_def enter_key_def space_key_def mouse_click_def open_menu_def uncontrolled_def
      preventDefault_def run_handler_def dd_open_def dd_setOpen_def Let_def)

text \<open>Checkbox and radio items never change the open state of the menu.\<close>

lemma checkbox_radio_keep_menu_open:
  "dd_open p (snd (checkbox_click checked has_cb h e s)) = dd_open p s \<and>
   dd_open p (snd (checkbox_handleClick checked has_cb h e s)) = dd_open p s \<and>
   dd_open p (snd (radio_click v has_cb h e s)) = dd_open p s \<and>
   dd_open p (snd (radio_handleClick v has_cb h e s)) = dd_open p s"
  by (simp add: checkbox_click_def checkbox_handleClick_def radio_click_def
      radio_handleClick_def dd_open_def Let_def split: option.split)

end
